theory Spec2Isabelle
  imports Main
begin

section \<open>Go values used by the program\<close>

text \<open>
  A Go \<open>string\<close> and a Go \<open>[]byte\<close> are sequences of bytes: both are modelled as
  \<open>string\<close> (a list of 8-bit characters). A \<open>[]string\<close> is a \<open>string list\<close>; the nil slice
  and the empty slice are both \<open>[]\<close> (the program only ever asks for their length).
  A Go \<open>error\<close> is its message.
\<close>

type_synonym bytes = string

datatype error = Error string

text \<open>\<open>fmt.Errorf("<prefix>: %w", err)\<close>: the message of the wrapped error after the prefix.\<close>

fun Errorf :: "string \<Rightarrow> error \<Rightarrow> error" where
  "Errorf prefix (Error msg) = Error (prefix @ '': '' @ msg)"

text \<open>
  The successive readings of \<open>time.Now().Format(time.RFC3339)\<close> during one call:
  \<open>clk 0\<close> is the first reading, \<open>clk 1\<close> the second, and so on. A function that reads
  the clock once hands \<open>tick clk\<close> to the code that runs after the reading.
\<close>

type_synonym clock = "nat \<Rightarrow> string"

definition tick :: "clock \<Rightarrow> clock" where
  "tick clk = (\<lambda>k. clk (Suc k))"

text \<open>
  The outcome of a Go function that returns \<open>(T, error)\<close>: a value, an error, or a
  run-time panic, which no \<open>if err != nil\<close> catches and which unwinds every caller.
  A function that may run forever returns \<open>'a outcome option\<close>, \<open>None\<close> for no return.
\<close>

datatype 'a outcome = Return 'a | Failure error | Panic string

definition slice_panic :: string where
  "slice_panic = ''runtime error: slice bounds out of range''"

text \<open>\<open>s[lo:hi]\<close> and \<open>s[lo:]\<close>; \<open>None\<close> where Go panics.\<close>

definition slice :: "string \<Rightarrow> int \<Rightarrow> int \<Rightarrow> string option" where
  "slice s lo hi =
     (if 0 \<le> lo \<and> lo \<le> hi \<and> hi \<le> int (length s)
      then Some (take (nat hi - nat lo) (drop (nat lo) s)) else None)"

definition slice_from :: "string \<Rightarrow> int \<Rightarrow> string option" where
  "slice_from s lo =
     (if 0 \<le> lo \<and> lo \<le> int (length s) then Some (drop (nat lo) s) else None)"

text \<open>\<open>strings.Index\<close>: the offset of the first occurrence, or -1.\<close>

fun strings_Index :: "string \<Rightarrow> string \<Rightarrow> int" where
  "strings_Index [] substr = (if substr = [] then 0 else - 1)"
| "strings_Index (c # s) substr =
     (if take (length substr) (c # s) = substr then 0
      else (let i = strings_Index s substr in if i = - 1 then - 1 else i + 1))"

text \<open>\<open>strings.Join\<close>.\<close>

fun strings_Join :: "string list \<Rightarrow> string \<Rightarrow> string" where
  "strings_Join [] sep = []"
| "strings_Join [a] sep = a"
| "strings_Join (a # b # elems) sep = a @ sep @ strings_Join (b # elems) sep"

text \<open>
  \<open>strings.Split(s, ",")\<close>: the program only splits at the single byte \<open>,\<close>, so the
  separator is a character.
\<close>

fun strings_Split :: "string \<Rightarrow> char \<Rightarrow> string list" where
  "strings_Split [] sep = [[]]"
| "strings_Split (c # s) sep =
     (if c = sep then [] # strings_Split s sep
      else (case strings_Split s sep of
              [] \<Rightarrow> [[c]]
            | w # ws \<Rightarrow> (c # w) # ws))"

text \<open>\<open>xml.Name\<close>.\<close>

record xml_Name =
  Space :: string
  Local :: string

definition no_Name :: xml_Name where
  "no_Name = \<lparr>Space = [], Local = []\<rparr>"

section \<open>Package dublincore\<close>

text \<open>The struct \<open>DublinCore\<close> of dublincore.go, field by field.\<close>

record DublinCore =
  XMLName :: xml_Name
  Title :: "string list"
  Creator :: "string list"
  Subject :: "string list"
  Description :: "string list"
  Publisher :: "string list"
  Contributor :: "string list"
  Date :: "string list"
  Type :: "string list"
  Format :: "string list"
  Identifier :: "string list"
  Source :: "string list"
  Language :: "string list"
  Relation :: "string list"
  Coverage :: "string list"
  Rights :: "string list"
  Keywords :: "string list"
  Category :: "string list"

text \<open>The zero value \<open>DublinCore{}\<close>.\<close>

definition zero_DublinCore :: DublinCore where
  "zero_DublinCore =
     \<lparr>XMLName = no_Name, Title = [], Creator = [], Subject = [], Description = [],
      Publisher = [], Contributor = [], Date = [], Type = [], Format = [], Identifier = [],
      Source = [], Language = [], Relation = [], Coverage = [], Rights = [],
      Keywords = [], Category = []\<rparr>"

definition docx_mime :: string where
  "docx_mime = ''application/vnd.openxmlformats-officedocument.wordprocessingml.document''"

text \<open>\<open>New\<close>: the default record; one reading of the clock.\<close>

definition New :: "clock \<Rightarrow> DublinCore" where
  "New clk = zero_DublinCore\<lparr>Date := [clk 0], Format := [docx_mime], Category := [''curriculo'']\<rparr>"

definition SetTitle :: "string \<Rightarrow> DublinCore \<Rightarrow> DublinCore" where
  "SetTitle title dc = dc\<lparr>Title := [title]\<rparr>"

definition AddCreator :: "string \<Rightarrow> DublinCore \<Rightarrow> DublinCore" where
  "AddCreator creator dc = dc\<lparr>Creator := Creator dc @ [creator]\<rparr>"

definition SetDescription :: "string \<Rightarrow> DublinCore \<Rightarrow> DublinCore" where
  "SetDescription description dc = dc\<lparr>Description := [description]\<rparr>"

definition AddKeyword :: "string \<Rightarrow> DublinCore \<Rightarrow> DublinCore" where
  "AddKeyword keyword dc = dc\<lparr>Keywords := Keywords dc @ [keyword]\<rparr>"

definition SetCategory :: "DublinCore \<Rightarrow> DublinCore" where
  "SetCategory dc = dc\<lparr>Category := [''curriculo'']\<rparr>"

text \<open>
  A call of one of the five mutation methods, and a sequence of such calls run in order
  on one record.
\<close>

datatype mutation =
    CallSetTitle string
  | CallAddCreator string
  | CallSetDescription string
  | CallAddKeyword string
  | CallSetCategory

fun call :: "mutation \<Rightarrow> DublinCore \<Rightarrow> DublinCore" where
  "call (CallSetTitle s) dc = SetTitle s dc"
| "call (CallAddCreator s) dc = AddCreator s dc"
| "call (CallSetDescription s) dc = SetDescription s dc"
| "call (CallAddKeyword s) dc = AddKeyword s dc"
| "call CallSetCategory dc = SetCategory dc"

fun calls :: "mutation list \<Rightarrow> DublinCore \<Rightarrow> DublinCore" where
  "calls [] dc = dc"
| "calls (m # ms) dc = calls ms (call m dc)"

section \<open>The standard library, as far as the program uses it\<close>

text \<open>
  The content of an element as \<open>encoding/xml\<close>'s decoder hands it to \<open>Unmarshal\<close>:
  child elements and character data in document order. An element's name is the name
  after the translation of its prefix: \<open>Space\<close> is the declared namespace, or the prefix
  itself when no declaration is in scope, or empty. Attributes, comments and processing
  instructions are left out: no struct of the program reads them.
\<close>

datatype xml_node = Element xml_Name "xml_node list" | CharData string

text \<open>
  A member of an opened archive (\<open>*zip.File\<close>): its name, and what \<open>Open\<close> followed by
  reading to the end gives: an error of \<open>Open\<close>, or the bytes read together with the
  error, if any, that ended the reading.
\<close>

record zip_File =
  Name :: string
  Opened :: "error + (bytes \<times> error option)"

text \<open>
  The functions of the standard library whose results depend on the file system or that
  are too large to be written out here are parameters of the model:
  \<^item> \<open>os_ReadFile\<close>, \<open>os_WriteFile\<close>: \<open>os.ReadFile\<close>, \<open>os.WriteFile\<close>;
  \<^item> \<open>os_Create\<close>: \<open>os.Create\<close>; a created file is represented by the outcomes of the
    successive operations on it (\<open>Some e\<close>: the operation fails with \<open>e\<close>; past the end
    of the list every operation succeeds);
  \<^item> \<open>zip_NewReader\<close>: \<open>zip.NewReader\<close>, the member list of a buffer or an error;
  \<^item> \<open>xml_Decode\<close>: the decoder of \<open>encoding/xml\<close> run on a buffer up to the end of the
    first element: that element's name and content, or the error the decoder stops with,
    together with the name of the first element when its start tag had been read;
  \<^item> \<open>xml_EscapeText\<close>: the escaping \<open>encoding/xml\<close> applies to character data and
    attribute values;
  \<^item> \<open>strings_TrimSpace\<close>: \<open>strings.TrimSpace\<close>.
\<close>

record golib =
  os_ReadFile :: "string \<Rightarrow> error + bytes"
  os_WriteFile :: "string \<Rightarrow> bytes \<Rightarrow> error option"
  os_Create :: "string \<Rightarrow> error + error option list"
  zip_NewReader :: "bytes \<Rightarrow> error + zip_File list"
  xml_Decode :: "bytes \<Rightarrow> error \<times> xml_Name option + xml_Name \<times> xml_node list"
  xml_EscapeText :: "string \<Rightarrow> string"
  strings_TrimSpace :: "string \<Rightarrow> string"

section \<open>Package docx: decoding the metadata entry\<close>

definition corePropertiesPath :: string where
  "corePropertiesPath = ''docProps/core.xml''"

subsection \<open>The substring-extraction fallback\<close>

text \<open>
  The loop of the closure \<open>extractField\<close> in \<open>parseCoreXMLAlternative\<close>, with its two
  variables \<open>start\<close> and \<open>values\<close>. Nothing bounds the number of iterations, so the
  loop is a partial function.
\<close>

partial_function (option) extractField_loop ::
  "golib \<Rightarrow> string \<Rightarrow> string \<Rightarrow> string \<Rightarrow> int \<Rightarrow> string list \<Rightarrow> string list outcome option"
where
  "extractField_loop L xmlStr startTag endTag start values =
     (if start \<noteq> - 1 then
        (case slice_from xmlStr start of
           None \<Rightarrow> Some (Panic slice_panic)
         | Some rest \<Rightarrow>
             (let end = strings_Index rest endTag in
              if end = - 1 then Some (Return values)
              else
                (case slice xmlStr (start + int (length startTag)) (start + end) of
                   None \<Rightarrow> Some (Panic slice_panic)
                 | Some val \<Rightarrow>
                     (case slice_from xmlStr (start + end + int (length endTag)) of
                        None \<Rightarrow> Some (Panic slice_panic)
                      | Some rest' \<Rightarrow>
                          (let start' = strings_Index rest' startTag in
                           extractField_loop L xmlStr startTag endTag
                             (if start' \<noteq> - 1 then start' + end + int (length endTag) else start')
                             (values @ [strings_TrimSpace L val]))))))
      else Some (Return values))"

declare extractField_loop.simps [code]

definition extractField :: "golib \<Rightarrow> string \<Rightarrow> string \<Rightarrow> string list outcome option" where
  "extractField L xmlStr tag =
     (let startTag = ''<'' @ tag @ ''>'';
          endTag = ''</'' @ tag @ ''>''
      in extractField_loop L xmlStr startTag endTag (strings_Index xmlStr startTag) [])"

definition possibleTags :: "string list" where
  "possibleTags =
     [''dc:title'', ''title'', ''cp:title'',
      ''dc:creator'', ''creator'', ''cp:creator'',
      ''dc:subject'', ''subject'', ''cp:subject'',
      ''dc:description'', ''description'', ''cp:description'',
      ''cp:keywords'', ''keywords'',
      ''cp:category'', ''category'']"

text \<open>The \<open>switch tag\<close> of the loop over \<open>possibleTags\<close>.\<close>

definition switch_tag :: "string \<Rightarrow> string list \<Rightarrow> DublinCore \<Rightarrow> DublinCore" where
  "switch_tag tag values dc =
     (if tag = ''dc:title'' \<or> tag = ''title'' \<or> tag = ''cp:title'' then dc\<lparr>Title := values\<rparr>
      else if tag = ''dc:creator'' \<or> tag = ''creator'' \<or> tag = ''cp:creator'' then dc\<lparr>Creator := values\<rparr>
      else if tag = ''dc:subject'' \<or> tag = ''subject'' \<or> tag = ''cp:subject'' then dc\<lparr>Subject := values\<rparr>
      else if tag = ''dc:description'' \<or> tag = ''description'' \<or> tag = ''cp:description''
        then dc\<lparr>Description := values\<rparr>
      else if tag = ''cp:keywords'' \<or> tag = ''keywords'' then dc\<lparr>Keywords := values\<rparr>
      else if tag = ''cp:category'' \<or> tag = ''category'' then dc\<lparr>Category := values\<rparr>
      else dc)"

text \<open>The loop \<open>for _, tag := range possibleTags\<close>, on the tags still to visit.\<close>

fun tags_loop :: "golib \<Rightarrow> string \<Rightarrow> string list \<Rightarrow> DublinCore \<Rightarrow> DublinCore outcome option" where
  "tags_loop L xmlStr [] dc = Some (Return dc)"
| "tags_loop L xmlStr (tag # tags) dc =
     (case extractField L xmlStr tag of
        None \<Rightarrow> None
      | Some (Panic m) \<Rightarrow> Some (Panic m)
      | Some (Failure e) \<Rightarrow> Some (Failure e)
      | Some (Return values) \<Rightarrow>
          tags_loop L xmlStr tags (if length values > 0 then switch_tag tag values dc else dc))"

definition parseCoreXMLAlternative :: "golib \<Rightarrow> clock \<Rightarrow> bytes \<Rightarrow> DublinCore outcome option" where
  "parseCoreXMLAlternative L clk data = tags_loop L data possibleTags (New clk)"

subsection \<open>The strict decode\<close>

text \<open>
  \<open>xml.Unmarshal\<close> into a struct whose fields are all \<open>[]string\<close> elements: every child
  element of the root that a field's tag matches appends its character data (that of
  the child itself, not of elements nested in it) to the field; other children are
  skipped. A tag \<open>"name"\<close> matches the local name in any namespace; a tag
  \<open>"namespace name"\<close> matches both.
\<close>

definition chardata :: "xml_node list \<Rightarrow> string" where
  "chardata content = concat (map (\<lambda>n. case n of CharData s \<Rightarrow> s | Element _ _ \<Rightarrow> []) content)"

definition field_values :: "(xml_Name \<Rightarrow> bool) \<Rightarrow> xml_node list \<Rightarrow> string list" where
  "field_values matches content =
     concat (map (\<lambda>n. case n of
                         Element name c \<Rightarrow> if matches name then [chardata c] else []
                       | CharData _ \<Rightarrow> []) content)"

definition tag_local :: "string \<Rightarrow> xml_Name \<Rightarrow> bool" where
  "tag_local name n = (Local n = name)"

definition tag_ns :: "string \<Rightarrow> string \<Rightarrow> xml_Name \<Rightarrow> bool" where
  "tag_ns ns name n = (Space n = ns \<and> Local n = name)"

text \<open>The anonymous struct \<open>coreProps\<close> of \<open>parseCoreXML\<close>.\<close>

record coreProps =
  XMLName_props :: xml_Name
  Title_props :: "string list"
  Creator_props :: "string list"
  Subject_props :: "string list"
  Description_props :: "string list"
  Keywords_props :: "string list"
  Category_props :: "string list"

text \<open>
  \<open>xml.Unmarshal(data, &coreProps)\<close>. The tag of \<open>XMLName\<close> is \<open>"coreProperties"\<close>: the
  root must have that local name, which \<open>Unmarshal\<close> checks as soon as the start tag is
  read, before the content.
\<close>

definition Unmarshal_coreProps :: "golib \<Rightarrow> bytes \<Rightarrow> error + coreProps" where
  "Unmarshal_coreProps L data =
     (case xml_Decode L data of
        Inl (e, None) \<Rightarrow> Inl e
      | Inl (e, Some root) \<Rightarrow>
          if Local root \<noteq> ''coreProperties''
          then Inl (Error (''expected element type <coreProperties> but have <'' @ Local root @ ''>''))
          else Inl e
      | Inr (root, content) \<Rightarrow>
          if Local root \<noteq> ''coreProperties''
          then Inl (Error (''expected element type <coreProperties> but have <'' @ Local root @ ''>''))
          else Inr \<lparr>XMLName_props = root,
                    Title_props = field_values (tag_local ''title'') content,
                    Creator_props = field_values (tag_local ''creator'') content,
                    Subject_props = field_values (tag_local ''subject'') content,
                    Description_props = field_values (tag_local ''description'') content,
                    Keywords_props = field_values (tag_local ''keywords'') content,
                    Category_props = field_values (tag_local ''category'') content\<rparr>)"

definition dc_ns :: string where
  "dc_ns = ''http://purl.org/dc/elements/1.1/''"

definition dcterms_ns :: string where
  "dcterms_ns = ''http://purl.org/dc/terms/''"

text \<open>
  \<open>xml.Unmarshal(data, &rawDC)\<close> into a \<open>DublinCore\<close>. The tag of \<open>XMLName\<close> is
  \<open>"http://purl.org/dc/elements/1.1/ dc"\<close>: the root must have that local name and that
  namespace, and the fields whose tag names no namespace take the namespace of \<open>XMLName\<close>.
\<close>

definition Unmarshal_DublinCore :: "golib \<Rightarrow> bytes \<Rightarrow> error + DublinCore" where
  "Unmarshal_DublinCore L data =
     (case xml_Decode L data of
        Inl (e, None) \<Rightarrow> Inl e
      | Inl (e, Some root) \<Rightarrow>
          if Local root \<noteq> ''dc''
          then Inl (Error (''expected element type <dc> but have <'' @ Local root @ ''>''))
          else if Space root \<noteq> dc_ns
          then Inl (Error (''expected element <dc> in name space '' @ dc_ns @ '' but have ''
                  @ (if Space root = [] then ''no name space'' else Space root)))
          else Inl e
      | Inr (root, content) \<Rightarrow>
          if Local root \<noteq> ''dc''
          then Inl (Error (''expected element type <dc> but have <'' @ Local root @ ''>''))
          else if Space root \<noteq> dc_ns
          then Inl (Error (''expected element <dc> in name space '' @ dc_ns @ '' but have ''
                  @ (if Space root = [] then ''no name space'' else Space root)))
          else Inr \<lparr>XMLName = root,
                    Title = field_values (tag_ns dc_ns ''title'') content,
                    Creator = field_values (tag_ns dc_ns ''creator'') content,
                    Subject = field_values (tag_ns dc_ns ''subject'') content,
                    Description = field_values (tag_ns dc_ns ''description'') content,
                    Publisher = field_values (tag_ns dc_ns ''publisher'') content,
                    Contributor = field_values (tag_ns dc_ns ''contributor'') content,
                    Date = field_values (tag_ns dc_ns ''date'') content,
                    Type = field_values (tag_ns dc_ns ''type'') content,
                    Format = field_values (tag_ns dc_ns ''format'') content,
                    Identifier = field_values (tag_ns dc_ns ''identifier'') content,
                    Source = field_values (tag_ns dc_ns ''source'') content,
                    Language = field_values (tag_ns dc_ns ''language'') content,
                    Relation = field_values (tag_ns dc_ns ''relation'') content,
                    Coverage = field_values (tag_ns dc_ns ''coverage'') content,
                    Rights = field_values (tag_ns dc_ns ''rights'') content,
                    Keywords = field_values (tag_ns dcterms_ns ''keyword'') content,
                    Category = field_values (tag_ns dcterms_ns ''type'') content\<rparr>)"

text \<open>The six \<open>if len(coreProps.X) > 0 { dc.X = coreProps.X }\<close> of \<open>parseCoreXML\<close>.\<close>

definition map_coreProps :: "coreProps \<Rightarrow> DublinCore \<Rightarrow> DublinCore" where
  "map_coreProps p dc0 =
     (let dc1 = (if length (Title_props p) > 0 then dc0\<lparr>Title := Title_props p\<rparr> else dc0);
          dc2 = (if length (Creator_props p) > 0 then dc1\<lparr>Creator := Creator_props p\<rparr> else dc1);
          dc3 = (if length (Subject_props p) > 0 then dc2\<lparr>Subject := Subject_props p\<rparr> else dc2);
          dc4 = (if length (Description_props p) > 0
                 then dc3\<lparr>Description := Description_props p\<rparr> else dc3);
          dc5 = (if length (Keywords_props p) > 0 then dc4\<lparr>Keywords := Keywords_props p\<rparr> else dc4)
      in if length (Category_props p) > 0 then dc5\<lparr>Category := Category_props p\<rparr> else dc5)"

definition parseCoreXML :: "golib \<Rightarrow> clock \<Rightarrow> bytes \<Rightarrow> DublinCore outcome option" where
  "parseCoreXML L clk data =
     (case Unmarshal_coreProps L data of
        Inl e \<Rightarrow> Some (Failure (Errorf ''XML parsing failed'' e))
      | Inr p \<Rightarrow>
          (let dc = map_coreProps p (New clk) in
           if length (Title dc) > 0 \<or> length (Creator dc) > 0
              \<or> length (Keywords dc) > 0 \<or> length (Description dc) > 0
           then Some (Return dc)
           else parseCoreXMLAlternative L (tick clk) data))"

text \<open>The second half of \<open>extractDublinCore\<close>: the document decoded as raw Dublin Core.\<close>

definition decode_rawDC :: "golib \<Rightarrow> bytes \<Rightarrow> DublinCore outcome option" where
  "decode_rawDC L data =
     (case Unmarshal_DublinCore L data of
        Inl e \<Rightarrow> Some (Failure e)
      | Inr rawDC \<Rightarrow> Some (Return rawDC))"

definition extractDublinCore :: "golib \<Rightarrow> clock \<Rightarrow> bytes \<Rightarrow> DublinCore outcome option" where
  "extractDublinCore L clk data =
     (case parseCoreXML L clk data of
        None \<Rightarrow> None
      | Some (Panic m) \<Rightarrow> Some (Panic m)
      | Some (Failure err) \<Rightarrow> decode_rawDC L data
      | Some (Return dc) \<Rightarrow>
          if length (Title dc) > 0 \<or> length (Creator dc) > 0 \<or> length (Keywords dc) > 0
          then Some (Return dc)
          else decode_rawDC L data)"

section \<open>Package docx: the container\<close>

record DOCX =
  FilePath :: string
  DublinCore :: DublinCore
  FileData :: bytes

fun findFile :: "zip_File list \<Rightarrow> string \<Rightarrow> error + zip_File" where
  "findFile [] name = Inl (Error (''file not found: '' @ name))"
| "findFile (file # reader) name =
     (if Name file = name then Inr file else findFile reader name)"

text \<open>\<open>readZipFile\<close>: \<open>file.Open()\<close>, then \<open>io.ReadAll\<close>.\<close>

definition readZipFile :: "zip_File \<Rightarrow> error + bytes" where
  "readZipFile file =
     (case Opened file of
        Inl e \<Rightarrow> Inl e
      | Inr (content, Some e) \<Rightarrow> Inl e
      | Inr (content, None) \<Rightarrow> Inr content)"

definition Open :: "golib \<Rightarrow> clock \<Rightarrow> string \<Rightarrow> DOCX outcome option" where
  "Open L clk filePath =
     (case os_ReadFile L filePath of
        Inl e \<Rightarrow> Some (Failure (Errorf ''failed to read file'' e))
      | Inr fileData \<Rightarrow>
          (case zip_NewReader L fileData of
             Inl e \<Rightarrow> Some (Failure (Errorf ''failed to create zip reader'' e))
           | Inr reader \<Rightarrow>
               (let docx = \<lparr>FilePath = filePath, DublinCore = New clk, FileData = fileData\<rparr> in
                case findFile reader corePropertiesPath of
                  Inl e \<Rightarrow> Some (Return docx)
                | Inr coreFile \<Rightarrow>
                    (case readZipFile coreFile of
                       Inl e \<Rightarrow> Some (Return docx)
                     | Inr coreData \<Rightarrow>
                         (case extractDublinCore L (tick clk) coreData of
                            None \<Rightarrow> None
                          | Some (Panic m) \<Rightarrow> Some (Panic m)
                          | Some (Failure e) \<Rightarrow> Some (Return docx)
                          | Some (Return dc) \<Rightarrow> Some (Return (docx\<lparr>DublinCore := dc\<rparr>)))))))"

section \<open>Package docx: writing the archive\<close>

text \<open>
  A \<open>*zip.Writer\<close> on a created file: the members written so far, in order, each with
  the bytes written to it; the outcomes of the operations still to come on the file; and
  whether \<open>Close\<close> has written the directory that makes the file an archive.
\<close>

record zip_Writer =
  entries :: "(string \<times> bytes) list"
  faults :: "error option list"
  closed :: bool

definition zip_NewWriter :: "error option list \<Rightarrow> zip_Writer" where
  "zip_NewWriter outFile = \<lparr>entries = [], faults = outFile, closed = False\<rparr>"

definition next_fault :: "zip_Writer \<Rightarrow> error option \<times> zip_Writer" where
  "next_fault w = (case faults w of [] \<Rightarrow> (None, w) | f # fs \<Rightarrow> (f, w\<lparr>faults := fs\<rparr>))"

text \<open>\<open>w.Create(name)\<close>: a new, empty member after the others.\<close>

definition zw_Create :: "zip_Writer \<Rightarrow> string \<Rightarrow> error option \<times> zip_Writer" where
  "zw_Create w name =
     (case next_fault w of
        (Some e, w') \<Rightarrow> (Some e, w')
      | (None, w') \<Rightarrow> (None, w'\<lparr>entries := entries w' @ [(name, [])]\<rparr>))"

text \<open>\<open>Write\<close> on the writer that the last \<open>Create\<close> returned: bytes appended to the last member.\<close>

definition zw_Write :: "zip_Writer \<Rightarrow> bytes \<Rightarrow> error option \<times> zip_Writer" where
  "zw_Write w p =
     (case next_fault w of
        (Some e, w') \<Rightarrow> (Some e, w')
      | (None, w') \<Rightarrow>
          (None, case rev (entries w') of
                   [] \<Rightarrow> w'
                 | (name, content) # earlier \<Rightarrow> w'\<lparr>entries := rev earlier @ [(name, content @ p)]\<rparr>))"

text \<open>\<open>w.Close()\<close>; the program defers it and drops its error.\<close>

definition zw_Close :: "zip_Writer \<Rightarrow> zip_Writer" where
  "zw_Close w =
     (case next_fault w of
        (Some e, w') \<Rightarrow> w'
      | (None, w') \<Rightarrow> w'\<lparr>closed := True\<rparr>)"

text \<open>The struct \<open>CoreProperties\<close>.\<close>

record CoreProperties =
  XMLNSCP :: string
  XMLNSDC :: string
  XMLNSDCTERMS :: string
  XMLNSXSI :: string
  Title_core :: "string list"
  Creator_core :: "string list"
  Subject_core :: "string list"
  Description_core :: "string list"
  Keywords_core :: "string list"
  Category_core :: "string list"

definition newline :: string where
  "newline = [CHR 0x0A]"

definition dquote :: string where
  "dquote = [CHR 0x22]"

text \<open>
  \<open>xml.MarshalIndent(cp, "", "  ")\<close> on a \<open>CoreProperties\<close>. An attribute field is written
  as \<open>name="value"\<close>. An element field with \<open>omitempty\<close> writes one element per string of
  the slice, each on a line of its own after two spaces, and writes nothing for a string
  that is empty; the end tag of the root is on a line of its own unless the root has no
  child.
\<close>

definition marshal_attr :: "golib \<Rightarrow> string \<Rightarrow> string \<Rightarrow> string" where
  "marshal_attr L name v = '' '' @ name @ ''='' @ dquote @ xml_EscapeText L v @ dquote"

definition marshal_elems :: "golib \<Rightarrow> string \<Rightarrow> string list \<Rightarrow> string" where
  "marshal_elems L tag vs =
     concat (map (\<lambda>v. if v = [] then []
                       else newline @ ''  <'' @ tag @ ''>'' @ xml_EscapeText L v @ ''</'' @ tag @ ''>'') vs)"

definition MarshalIndent :: "golib \<Rightarrow> CoreProperties \<Rightarrow> error + string" where
  "MarshalIndent L cp =
     (let children =
            marshal_elems L ''dc:title'' (Title_core cp)
          @ marshal_elems L ''dc:creator'' (Creator_core cp)
          @ marshal_elems L ''dc:subject'' (Subject_core cp)
          @ marshal_elems L ''dc:description'' (Description_core cp)
          @ marshal_elems L ''cp:keywords'' (Keywords_core cp)
          @ marshal_elems L ''cp:category'' (Category_core cp)
      in Inr (''<cp:coreProperties''
              @ marshal_attr L ''xmlns:cp'' (XMLNSCP cp)
              @ marshal_attr L ''xmlns:dc'' (XMLNSDC cp)
              @ marshal_attr L ''xmlns:dcterms'' (XMLNSDCTERMS cp)
              @ marshal_attr L ''xmlns:xsi'' (XMLNSXSI cp)
              @ ''>'' @ children
              @ (if children = [] then [] else newline)
              @ ''</cp:coreProperties>''))"

definition xml_header :: string where
  "xml_header = ''<?xml version='' @ dquote @ ''1.0'' @ dquote @ '' encoding='' @ dquote @ ''UTF-8''
     @ dquote @ '' standalone='' @ dquote @ ''yes'' @ dquote @ ''?>'' @ newline"

definition ToXML :: "golib \<Rightarrow> CoreProperties \<Rightarrow> error + bytes" where
  "ToXML L cp0 =
     (let cp = cp0\<lparr>XMLNSCP := ''http://schemas.openxmlformats.org/package/2006/metadata/core-properties'',
                    XMLNSDC := ''http://purl.org/dc/elements/1.1/'',
                    XMLNSDCTERMS := ''http://purl.org/dc/terms/'',
                    XMLNSXSI := ''http://www.w3.org/2001/XMLSchema-instance''\<rparr>
      in case MarshalIndent L cp of
           Inl err \<Rightarrow> Inl err
         | Inr data \<Rightarrow> Inr (xml_header @ data))"

text \<open>The \<open>CoreProperties\<close> literal of \<open>writeCoreProperties\<close>.\<close>

definition coreProps_of :: "DublinCore \<Rightarrow> CoreProperties" where
  "coreProps_of dc =
     \<lparr>XMLNSCP = [], XMLNSDC = [], XMLNSDCTERMS = [], XMLNSXSI = [],
      Title_core = Title dc, Creator_core = Creator dc, Subject_core = Subject dc,
      Description_core = Description dc, Keywords_core = Keywords dc,
      Category_core = Category dc\<rparr>"

definition writeCoreProperties :: "golib \<Rightarrow> DOCX \<Rightarrow> zip_Writer \<Rightarrow> error option \<times> zip_Writer" where
  "writeCoreProperties L d zipWriter =
     (case zw_Create zipWriter corePropertiesPath of
        (Some err, w) \<Rightarrow> (Some (Errorf ''failed to create core.xml'' err), w)
      | (None, w) \<Rightarrow>
          (case ToXML L (coreProps_of (DublinCore d)) of
             Inl err \<Rightarrow> (Some (Errorf ''failed to marshal core properties'' err), w)
           | Inr data \<Rightarrow>
               (case zw_Write w data of
                  (Some err, w') \<Rightarrow> (Some (Errorf ''failed to write core properties'' err), w')
                | (None, w') \<Rightarrow> (None, w'))))"

text \<open>
  \<open>io.Copy(destWriter, srcReader)\<close>: what was read is written (nothing is written when
  nothing was read), and an error that ended the reading is returned after that.
\<close>

definition io_Copy :: "zip_Writer \<Rightarrow> bytes \<times> error option \<Rightarrow> error option \<times> zip_Writer" where
  "io_Copy w src =
     (case src of
        (content, rerr) \<Rightarrow>
          if content = [] then (rerr, w)
          else (case zw_Write w content of
                  (Some err, w') \<Rightarrow> (Some err, w')
                | (None, w') \<Rightarrow> (rerr, w')))"

definition copyZipFile :: "zip_Writer \<Rightarrow> zip_File \<Rightarrow> error option \<times> zip_Writer" where
  "copyZipFile dest src =
     (case Opened src of
        Inl err \<Rightarrow> (Some err, dest)
      | Inr srcReader \<Rightarrow>
          (case zw_Create dest (Name src) of
             (Some err, w) \<Rightarrow> (Some err, w)
           | (None, w) \<Rightarrow> io_Copy w srcReader))"

text \<open>The loop \<open>for _, file := range reader.File\<close> of \<open>Save\<close>, on the members still to visit.\<close>

fun Save_loop :: "golib \<Rightarrow> DOCX \<Rightarrow> zip_File list \<Rightarrow> zip_Writer \<Rightarrow> error option \<times> zip_Writer" where
  "Save_loop L d [] zipWriter = (None, zipWriter)"
| "Save_loop L d (file # files) zipWriter =
     (if Name file = corePropertiesPath then
        (case writeCoreProperties L d zipWriter of
           (Some err, w) \<Rightarrow> (Some (Errorf ''failed to write core properties'' err), w)
         | (None, w) \<Rightarrow> Save_loop L d files w)
      else
        (case copyZipFile zipWriter file of
           (Some err, w) \<Rightarrow> (Some (Errorf (''failed to copy file '' @ Name file) err), w)
         | (None, w) \<Rightarrow> Save_loop L d files w))"

text \<open>
  \<open>Save\<close> returns its error; its effect is the file it created, if it came to create one:
  the path, and the writer after the deferred \<open>Close\<close>.
\<close>

definition Save :: "golib \<Rightarrow> DOCX \<Rightarrow> string \<Rightarrow> error option \<times> (string \<times> zip_Writer) option" where
  "Save L d outputPath0 =
     (let outputPath = (if outputPath0 = [] then FilePath d else outputPath0) in
      case zip_NewReader L (FileData d) of
        Inl err \<Rightarrow> (Some (Errorf ''failed to create zip reader from memory'' err), None)
      | Inr reader \<Rightarrow>
          (case os_Create L outputPath of
             Inl err \<Rightarrow> (Some (Errorf ''failed to create output file'' err), None)
           | Inr outFile \<Rightarrow>
               (case Save_loop L d reader (zip_NewWriter outFile) of
                  (err, w) \<Rightarrow> (err, Some (outputPath, zw_Close w)))))"

text \<open>
  What \<open>Save\<close> writes for one member of the source archive: a member of the same name,
  holding the serialized record for the metadata entry and the member's own bytes, read
  without error, for any other.
\<close>

definition written_for :: "golib \<Rightarrow> DOCX \<Rightarrow> zip_File \<Rightarrow> string \<times> bytes \<Rightarrow> bool" where
  "written_for L d file e =
     (fst e = Name file \<and>
      (if Name file = corePropertiesPath
       then ToXML L (coreProps_of (DublinCore d)) = Inr (snd e)
       else Opened file = Inr (snd e, None)))"

text \<open>
  A created file on which no operation fails, and a member that is opened and read to
  its end without error.
\<close>

definition fault_free :: "error option list \<Rightarrow> bool" where
  "fault_free outFile = list_all (\<lambda>f. f = None) outFile"

definition readable :: "zip_File \<Rightarrow> bool" where
  "readable file = (case Opened file of Inr (content, None) \<Rightarrow> True | _ \<Rightarrow> False)"

text \<open>\<open>strings.Contains\<close>.\<close>

definition strings_Contains :: "string \<Rightarrow> string \<Rightarrow> bool" where
  "strings_Contains s substr = (strings_Index s substr \<ge> 0)"

section \<open>Package ui: the form\<close>

text \<open>
  The values of the four text inputs (\<open>m.inputs[i].Value()\<close>) when the form is submitted.
\<close>

record inputs =
  input_title :: string
  input_creator :: string
  input_keywords :: string
  input_description :: string

definition placeholder_title :: string where
  "placeholder_title = ''e.g., Senior Backend Developer''"

definition placeholder_creator :: string where
  "placeholder_creator = ''e.g., Jo'' @ [CHR 0xC3, CHR 0xA3] @ ''o Silva, Maria Santos''"

definition placeholder_keywords :: string where
  "placeholder_keywords = ''e.g., Go, Backend, Microservices, PHP''"

definition placeholder_description :: string where
  "placeholder_description = ''e.g., Experienced backend developer with 6+ years in technology''"

text \<open>
  The loop that splits a comma-separated input: each part trimmed, the empty ones dropped.
\<close>

definition trimmed_parts :: "golib \<Rightarrow> string \<Rightarrow> string list" where
  "trimmed_parts L s =
     filter (\<lambda>trimmed. trimmed \<noteq> []) (map (strings_TrimSpace L) (strings_Split s (CHR '','')))"

definition updateDublinCoreFromInputs :: "golib \<Rightarrow> inputs \<Rightarrow> DublinCore \<Rightarrow> DublinCore" where
  "updateDublinCoreFromInputs L m dc0 =
     (let titleInput = strings_TrimSpace L (input_title m);
          dc1 = (if titleInput \<noteq> [] \<and> titleInput \<noteq> placeholder_title
                 then SetTitle titleInput dc0 else dc0);
          creatorsInput = strings_TrimSpace L (input_creator m);
          dc2 = (if creatorsInput \<noteq> [] \<and> creatorsInput \<noteq> placeholder_creator
                 then dc1\<lparr>Creator := trimmed_parts L creatorsInput\<rparr> else dc1);
          keywordsInput = strings_TrimSpace L (input_keywords m);
          dc3 = (if keywordsInput \<noteq> [] \<and> keywordsInput \<noteq> placeholder_keywords
                 then dc2\<lparr>Keywords := trimmed_parts L keywordsInput\<rparr> else dc2);
          descriptionInput = strings_TrimSpace L (input_description m);
          dc4 = (if descriptionInput \<noteq> [] \<and> descriptionInput \<noteq> placeholder_description
                 then SetDescription descriptionInput dc3 else dc3)
      in SetCategory dc4)"

text \<open>
  How the terminal program ended: \<open>p.Run()\<close> failed, the form was submitted with these
  input values (\<open>m.done\<close>), it was cancelled (\<open>m.cancelled\<close>), or neither.
\<close>

datatype session = RunFailed error | Submitted inputs | Cancelled | Neither

definition RunEditor :: "golib \<Rightarrow> session \<Rightarrow> DublinCore \<Rightarrow> error + DublinCore \<times> bool" where
  "RunEditor L run dc =
     (case run of
        RunFailed err \<Rightarrow> Inl err
      | Submitted m \<Rightarrow> Inr (updateDublinCoreFromInputs L m dc, False)
      | Cancelled \<Rightarrow> Inr (dc, True)
      | Neither \<Rightarrow> Inr (dc, False))"

section \<open>Package editor: the edit flow\<close>

definition hasChanges :: "DublinCore \<Rightarrow> DublinCore \<Rightarrow> bool" where
  "hasChanges original updated =
     (if strings_Join (Title original) ''|'' \<noteq> strings_Join (Title updated) ''|'' then True
      else if strings_Join (Creator original) ''|'' \<noteq> strings_Join (Creator updated) ''|'' then True
      else if strings_Join (Keywords original) ''|'' \<noteq> strings_Join (Keywords updated) ''|'' then True
      else if strings_Join (Description original) ''|'' \<noteq> strings_Join (Description updated) ''|''
        then True
      else False)"

definition hasRealChanges :: "DublinCore \<Rightarrow> DublinCore \<Rightarrow> bool" where
  "hasRealChanges original updated =
     (if strings_Join (Title original) '','' \<noteq> strings_Join (Title updated) '','' then True
      else if strings_Join (Creator original) '','' \<noteq> strings_Join (Creator updated) '','' then True
      else if strings_Join (Keywords original) '','' \<noteq> strings_Join (Keywords updated) '','' then True
      else if strings_Join (Description original) '','' \<noteq> strings_Join (Description updated) '',''
        then True
      else False)"

text \<open>
  What a run of the edit flow leaves on disk: files written by \<open>os.WriteFile\<close> and
  archives written by \<open>Save\<close>, in order.
\<close>

datatype effect = WroteFile string bytes | WroteArchive string zip_Writer

definition createBackup :: "golib \<Rightarrow> string \<Rightarrow> string \<Rightarrow> error option \<times> effect list" where
  "createBackup L src dst =
     (case os_ReadFile L src of
        Inl err \<Rightarrow> (Some err, [])
      | Inr input \<Rightarrow>
          (case os_WriteFile L dst input of
             Some err \<Rightarrow> (Some err, [])
           | None \<Rightarrow> (None, [WroteFile dst input])))"

text \<open>The copy \<open>originalDC\<close> that \<open>editWithTUI\<close> takes of five fields before the form runs.\<close>

definition originalDC_of :: "DublinCore \<Rightarrow> DublinCore" where
  "originalDC_of dc =
     zero_DublinCore\<lparr>Title := Title dc, Creator := Creator dc, Keywords := Keywords dc,
                     Description := Description dc, Category := Category dc\<rparr>"

definition archive_effect :: "(string \<times> zip_Writer) option \<Rightarrow> effect list" where
  "archive_effect out = (case out of None \<Rightarrow> [] | Some (path, w) \<Rightarrow> [WroteArchive path w])"

text \<open>\<open>editWithTUI\<close> from the point where the form has returned without being cancelled and a change was detected.\<close>

definition save_edit :: "golib \<Rightarrow> DOCX \<Rightarrow> string \<Rightarrow> string \<Rightarrow> error option \<times> effect list" where
  "save_edit L doc filePath outputPath =
     (if outputPath = [] then
        (case createBackup L filePath (filePath @ ''.backup'') of
           (Some err, fx) \<Rightarrow> (Some (Errorf ''backup failed'' err), fx)
         | (None, fx) \<Rightarrow>
             (case Save L doc filePath of
                (Some err, out) \<Rightarrow> (Some (Errorf ''failed to save DOCX file'' err), fx @ archive_effect out)
              | (None, out) \<Rightarrow> (None, fx @ archive_effect out)))
      else
        (case Save L doc outputPath of
           (Some err, out) \<Rightarrow> (Some (Errorf ''failed to save DOCX file'' err), archive_effect out)
         | (None, out) \<Rightarrow> (None, archive_effect out)))"

text \<open>
  \<open>editWithTUI\<close>: the error it returns and what it left on disk. The form works on the
  record of the opened document itself, so after a submission that record is the
  updated one whether or not the flow goes on to save.
\<close>

definition editWithTUI ::
  "golib \<Rightarrow> clock \<Rightarrow> session \<Rightarrow> string \<Rightarrow> string \<Rightarrow> (error option \<times> effect list) outcome option"
where
  "editWithTUI L clk run filePath outputPath =
     (case Open L clk filePath of
        None \<Rightarrow> None
      | Some (Panic m) \<Rightarrow> Some (Panic m)
      | Some (Failure err) \<Rightarrow> Some (Return (Some (Errorf ''failed to open DOCX file'' err), []))
      | Some (Return doc) \<Rightarrow>
          Some (Return
            (let originalDC = originalDC_of (DublinCore doc) in
             case RunEditor L run (DublinCore doc) of
               Inl err \<Rightarrow> (Some (Errorf ''TUI editor failed'' err), [])
             | Inr (updatedDC, cancelled) \<Rightarrow>
                 if cancelled then (None, [])
                 else if \<not> hasChanges originalDC updatedDC then (None, [])
                 else save_edit L (doc\<lparr>DublinCore := updatedDC\<rparr>) filePath outputPath)))"

section \<open>A serialized record read back\<close>

text \<open>
  The elements that \<open>MarshalIndent\<close> writes for a \<open>CoreProperties\<close>, as the decoder reads
  them back: the root and its children under the namespaces that the root's \<open>xmlns\<close>
  attributes declare for \<open>cp\<close> and \<open>dc\<close>, one child for each string that is not empty,
  each after the line break and the two spaces of the indentation, and the line break
  before the root's end tag.
\<close>

definition cp_ns :: string where
  "cp_ns = ''http://schemas.openxmlformats.org/package/2006/metadata/core-properties''"

definition serialized_elems :: "string \<Rightarrow> string \<Rightarrow> string list \<Rightarrow> xml_node list" where
  "serialized_elems ns name vs =
     concat (map (\<lambda>v. if v = [] then []
                       else [CharData (newline @ ''  ''),
                             Element \<lparr>Space = ns, Local = name\<rparr> [CharData v]]) vs)"

definition serialized_tree :: "CoreProperties \<Rightarrow> xml_Name \<times> xml_node list" where
  "serialized_tree cp =
     (let children =
            serialized_elems dc_ns ''title'' (Title_core cp)
          @ serialized_elems dc_ns ''creator'' (Creator_core cp)
          @ serialized_elems dc_ns ''subject'' (Subject_core cp)
          @ serialized_elems dc_ns ''description'' (Description_core cp)
          @ serialized_elems cp_ns ''keywords'' (Keywords_core cp)
          @ serialized_elems cp_ns ''category'' (Category_core cp)
      in (\<lparr>Space = cp_ns, Local = ''coreProperties''\<rparr>,
          children @ (if children = [] then [] else [CharData newline])))"

section \<open>A library given by tables\<close>

text \<open>
  To run the model on concrete inputs the library is instantiated from four tables: the
  files on disk, the buffers that are archives with their members, the documents with
  what the XML decoder hands out for them, and the documents that end inside their
  first element, with that element's name; any other file or buffer is an error, and
  any other document has no element at all. Every created file takes every write. \<open>ascii_EscapeText\<close> and
  \<open>ascii_TrimSpace\<close> are \<open>encoding/xml\<close>'s escaping and \<open>strings.TrimSpace\<close> as they act on
  printable ASCII text, tabs and line ends.
\<close>

definition ascii_escape :: "char \<Rightarrow> string" where
  "ascii_escape c =
     (if c = CHR 0x22 then ''&#34;''
      else if c = CHR 0x27 then ''&#39;''
      else if c = CHR ''&'' then ''&amp;''
      else if c = CHR ''<'' then ''&lt;''
      else if c = CHR ''>'' then ''&gt;''
      else if c = CHR 0x09 then ''&#x9;''
      else if c = CHR 0x0A then ''&#xA;''
      else if c = CHR 0x0D then ''&#xD;''
      else [c])"

definition ascii_EscapeText :: "string \<Rightarrow> string" where
  "ascii_EscapeText s = concat (map ascii_escape s)"

definition ascii_space :: "char \<Rightarrow> bool" where
  "ascii_space c = (c = CHR '' '' \<or> c = CHR 0x09 \<or> c = CHR 0x0A \<or> c = CHR 0x0B \<or> c = CHR 0x0C \<or> c = CHR 0x0D)"

definition ascii_TrimSpace :: "string \<Rightarrow> string" where
  "ascii_TrimSpace s = rev (dropWhile ascii_space (rev (dropWhile ascii_space s)))"

definition table_lookup :: "('a \<times> 'b) list \<Rightarrow> error \<Rightarrow> 'a \<Rightarrow> error + 'b" where
  "table_lookup t err k = (case map_of t k of None \<Rightarrow> Inl err | Some v \<Rightarrow> Inr v)"

definition table_Decode ::
  "(bytes \<times> xml_Name \<times> xml_node list) list \<Rightarrow> (bytes \<times> xml_Name) list
     \<Rightarrow> bytes \<Rightarrow> error \<times> xml_Name option + xml_Name \<times> xml_node list"
where
  "table_Decode documents truncated data =
     (case map_of documents data of
        Some element \<Rightarrow> Inr element
      | None \<Rightarrow>
          (case map_of truncated data of
             Some root \<Rightarrow> Inl (Error ''XML syntax error on line 1: unexpected EOF'', Some root)
           | None \<Rightarrow> Inl (Error ''EOF'', None)))"

definition table_lib ::
  "(string \<times> bytes) list \<Rightarrow> (bytes \<times> zip_File list) list
     \<Rightarrow> (bytes \<times> xml_Name \<times> xml_node list) list \<Rightarrow> (bytes \<times> xml_Name) list \<Rightarrow> golib"
where
  "table_lib files archives documents truncated =
     \<lparr>os_ReadFile = table_lookup files (Error ''no such file or directory''),
      os_WriteFile = (\<lambda>name data. None),
      os_Create = (\<lambda>name. Inr []),
      zip_NewReader = table_lookup archives (Error ''zip: not a valid zip file''),
      xml_Decode = table_Decode documents truncated,
      xml_EscapeText = ascii_EscapeText,
      strings_TrimSpace = ascii_TrimSpace\<rparr>"

section \<open>Example inputs\<close>

text \<open>
  Seven metadata entries: the one of the specification's example scenario; one with two
  creators, one of them empty; one that holds a description and nothing else; one that
  holds two \<open>cp:subject\<close> elements and nothing else; one that holds a revision number
  before two such elements; one with a category of its own; and one cut off in the
  middle. Then the serialized form of the records decoded from the first two. The table
  gives each entry but the cut one with what the decoder reads in it.
\<close>

definition core_old :: bytes where
  "core_old = ''<coreProperties><dc:title>Old</dc:title></coreProperties>''"

definition core_creators :: bytes where
  "core_creators = ''<coreProperties><creator></creator><creator>Ann</creator></coreProperties>''"

definition core_description :: bytes where
  "core_description = ''<coreProperties><description>Hello</description></coreProperties>''"

definition core_subjects :: bytes where
  "core_subjects =
     ''<coreProperties><cp:subject>a</cp:subject><cp:subject>b</cp:subject></coreProperties>''"

definition core_revision :: bytes where
  "core_revision =
     ''<coreProperties><cp:revision>12</cp:revision><cp:subject>a</cp:subject><cp:subject>b</cp:subject></coreProperties>''"

definition core_draft :: bytes where
  "core_draft = ''<coreProperties><title>Old</title><category>draft</category></coreProperties>''"

definition core_cut :: bytes where
  "core_cut = ''<coreProperties><title>Old''"

definition root_start_tag :: string where
  "root_start_tag =
     ''<cp:coreProperties''
     @ '' xmlns:cp='' @ dquote
     @ ''http://schemas.openxmlformats.org/package/2006/metadata/core-properties'' @ dquote
     @ '' xmlns:dc='' @ dquote @ ''http://purl.org/dc/elements/1.1/'' @ dquote
     @ '' xmlns:dcterms='' @ dquote @ ''http://purl.org/dc/terms/'' @ dquote
     @ '' xmlns:xsi='' @ dquote @ ''http://www.w3.org/2001/XMLSchema-instance'' @ dquote
     @ ''>''"

definition serialized_old :: bytes where
  "serialized_old =
     xml_header @ root_start_tag
     @ newline @ ''  <dc:title>Old</dc:title>''
     @ newline @ ''  <cp:category>curriculo</cp:category>''
     @ newline @ ''</cp:coreProperties>''"

definition serialized_creators :: bytes where
  "serialized_creators =
     xml_header @ root_start_tag
     @ newline @ ''  <dc:creator>Ann</dc:creator>''
     @ newline @ ''  <cp:category>curriculo</cp:category>''
     @ newline @ ''</cp:coreProperties>''"

text \<open>
  Three texts for the substring-extraction fallback alone: one with each of the five
  \<open>cp:\<close> tags once, one with a \<open>dc:title\<close> and a \<open>cp:title\<close>, and one with a title and
  two \<open>cp:creator\<close> elements.
\<close>

definition core_cp_only :: bytes where
  "core_cp_only =
     ''<cp:coreProperties><cp:title>T</cp:title><cp:creator>C</cp:creator><cp:subject>S</cp:subject><cp:description> D </cp:description><cp:keywords>K</cp:keywords></cp:coreProperties>''"

definition core_two_titles :: bytes where
  "core_two_titles = ''<p><dc:title>A</dc:title><cp:title>B</cp:title></p>''"

definition core_two_creators :: bytes where
  "core_two_creators =
     ''<cp:coreProperties><cp:title>T</cp:title><cp:creator>A</cp:creator><cp:creator>B</cp:creator></cp:coreProperties>''"

definition root_plain :: xml_Name where
  "root_plain = \<lparr>Space = [], Local = ''coreProperties''\<rparr>"

definition root_cp :: xml_Name where
  "root_cp = \<lparr>Space = cp_ns, Local = ''coreProperties''\<rparr>"

definition example_documents :: "(bytes \<times> xml_Name \<times> xml_node list) list" where
  "example_documents =
     [(core_old, root_plain, [Element \<lparr>Space = ''dc'', Local = ''title''\<rparr> [CharData ''Old'']]),
      (core_creators, root_plain,
         [Element \<lparr>Space = [], Local = ''creator''\<rparr> [],
          Element \<lparr>Space = [], Local = ''creator''\<rparr> [CharData ''Ann'']]),
      (core_description, root_plain,
         [Element \<lparr>Space = [], Local = ''description''\<rparr> [CharData ''Hello'']]),
      (core_subjects, root_plain,
         [Element \<lparr>Space = ''cp'', Local = ''subject''\<rparr> [CharData ''a''],
          Element \<lparr>Space = ''cp'', Local = ''subject''\<rparr> [CharData ''b'']]),
      (core_revision, root_plain,
         [Element \<lparr>Space = ''cp'', Local = ''revision''\<rparr> [CharData ''12''],
          Element \<lparr>Space = ''cp'', Local = ''subject''\<rparr> [CharData ''a''],
          Element \<lparr>Space = ''cp'', Local = ''subject''\<rparr> [CharData ''b'']]),
      (core_draft, root_plain,
         [Element \<lparr>Space = [], Local = ''title''\<rparr> [CharData ''Old''],
          Element \<lparr>Space = [], Local = ''category''\<rparr> [CharData ''draft'']]),
      (serialized_old, root_cp,
         [CharData (newline @ ''  ''), Element \<lparr>Space = dc_ns, Local = ''title''\<rparr> [CharData ''Old''],
          CharData (newline @ ''  ''),
          Element \<lparr>Space = cp_ns, Local = ''category''\<rparr> [CharData ''curriculo''],
          CharData newline]),
      (serialized_creators, root_cp,
         [CharData (newline @ ''  ''), Element \<lparr>Space = dc_ns, Local = ''creator''\<rparr> [CharData ''Ann''],
          CharData (newline @ ''  ''),
          Element \<lparr>Space = cp_ns, Local = ''category''\<rparr> [CharData ''curriculo''],
          CharData newline])]"

text \<open>
  An archive of three members around a given metadata entry, one of two members without
  a metadata entry, and the files on disk: one archive for each entry, the archive
  without metadata, and a text file. A file's bytes stand for themselves; the table of
  archives says which of them are archives.
\<close>

definition member :: "string \<Rightarrow> bytes \<Rightarrow> zip_File" where
  "member name content = \<lparr>Name = name, Opened = Inr (content, None)\<rparr>"

definition archive_around :: "bytes \<Rightarrow> zip_File list" where
  "archive_around core =
     [member ''[Content_Types].xml'' ''<Types/>'',
      member ''docProps/core.xml'' core,
      member ''word/document.xml'' ''<w:document/>'']"

definition archive_plain :: "zip_File list" where
  "archive_plain =
     [member ''[Content_Types].xml'' ''<Types/>'',
      member ''word/document.xml'' ''<w:document/>'']"

definition example_files :: "(string \<times> bytes) list" where
  "example_files =
     [(''old.docx'', ''PK:old''), (''creators.docx'', ''PK:creators''),
      (''description.docx'', ''PK:description''), (''subjects.docx'', ''PK:subjects''),
      (''revision.docx'', ''PK:revision''), (''draft.docx'', ''PK:draft''), (''cut.docx'', ''PK:cut''), (''plain.docx'', ''PK:plain''),
      (''notes.txt'', ''just some notes'')]"

definition example_archives :: "(bytes \<times> zip_File list) list" where
  "example_archives =
     [(''PK:old'', archive_around core_old), (''PK:creators'', archive_around core_creators),
      (''PK:description'', archive_around core_description),
      (''PK:subjects'', archive_around core_subjects),
      (''PK:revision'', archive_around core_revision),
      (''PK:draft'', archive_around core_draft),
      (''PK:cut'', archive_around core_cut), (''PK:plain'', archive_plain)]"

definition example_lib :: golib where
  "example_lib =
     table_lib example_files example_archives example_documents [(core_cut, root_plain)]"

text \<open>Two clocks, seven seconds apart.\<close>

definition example_clock :: clock where
  "example_clock = (\<lambda>k. ''2024-05-01T10:00:00Z'')"

definition later_clock :: clock where
  "later_clock = (\<lambda>k. ''2024-05-01T10:00:07Z'')"

text \<open>The record that \<open>creators.docx\<close> decodes to by \<open>example_clock\<close>.\<close>

definition decoded_creators :: DublinCore where
  "decoded_creators = (New example_clock)\<lparr>Creator := [[], ''Ann'']\<rparr>"

text \<open>The record that its serialized form decodes to by \<open>later_clock\<close>.\<close>

definition redecoded_creators :: DublinCore where
  "redecoded_creators = (New later_clock)\<lparr>Creator := [''Ann'']\<rparr>"

text \<open>A form submitted with the title left as it was and the other inputs empty.\<close>

definition submit_unchanged :: session where
  "submit_unchanged =
     Submitted \<lparr>input_title = ''Old'', input_creator = [], input_keywords = [],
                input_description = []\<rparr>"

text \<open>The document of \<open>old.docx\<close> after the edit of the example scenario, on a fresh default record.\<close>

definition edited_old :: DOCX where
  "edited_old = \<lparr>FilePath = ''old.docx'',
      DublinCore = SetCategory (SetTitle ''New Role'' (New example_clock)), FileData = ''PK:old''\<rparr>"

text \<open>The document that \<open>draft.docx\<close> opens to by \<open>example_clock\<close>.\<close>

definition draft_doc :: DOCX where
  "draft_doc = \<lparr>FilePath = ''draft.docx'',
      DublinCore = (New (tick example_clock))\<lparr>Title := [''Old''], Category := [''draft'']\<rparr>,
      FileData = ''PK:draft''\<rparr>"

section \<open>Unfolding the examples\<close>

lemmas lib_defs = example_lib_def table_lib_def table_lookup_def table_Decode_def
lemmas doc_defs = example_documents_def core_old_def core_creators_def core_description_def
  core_subjects_def core_revision_def core_draft_def core_cut_def serialized_old_def serialized_creators_def
  xml_header_def root_start_tag_def root_plain_def root_cp_def

section \<open>The category is enforced\<close>

lemma calls_append: "calls (ms @ ns) dc = calls ns (calls ms dc)"
  by (induction ms arbitrary: dc) simp_all

lemma SetCategory_idem: "SetCategory (SetCategory dc) = SetCategory dc"
  by (simp add: SetCategory_def)

lemma SetCategory_funpow: "(SetCategory ^^ Suc n) dc = SetCategory dc"
  by (induction n) (simp_all add: SetCategory_idem)

text \<open>
  C9. \<open>SetCategory\<close> is idempotent, any positive number of calls gives the category
  \<open>["curriculo"]\<close>, and so does any sequence of mutation calls (with \<open>SetCategory\<close> calls
  anywhere inside it) that ends with a \<open>SetCategory\<close>, from any record whatever.
\<close>

theorem SetCategory_always_wins:
  "SetCategory (SetCategory dc) = SetCategory dc
   \<and> (1 \<le> n \<longrightarrow> Category ((SetCategory ^^ n) dc) = [''curriculo''])
   \<and> Category (calls (ms @ [CallSetCategory]) dc) = [''curriculo'']"
proof (intro conjI impI)
  show "SetCategory (SetCategory dc) = SetCategory dc"
    by (rule SetCategory_idem)
next
  assume "1 \<le> n"
  then obtain k where "n = Suc k"
    by (cases n) auto
  then show "Category ((SetCategory ^^ n) dc) = [''curriculo'']"
    using SetCategory_funpow [of k dc] by (simp add: SetCategory_def)
next
  show "Category (calls (ms @ [CallSetCategory]) dc) = [''curriculo'']"
    by (simp add: calls_append SetCategory_def)
qed

theorem SetCategory_always_wins_witness:
  "(1::nat) \<le> 3
   \<and> Category ((SetCategory ^^ 3) (zero_DublinCore\<lparr>Category := [''other'', ''x'']\<rparr>)) = [''curriculo'']
   \<and> Category (calls ([CallSetCategory, CallAddKeyword ''go'', CallSetTitle ''T''] @ [CallSetCategory])
        (zero_DublinCore\<lparr>Category := []\<rparr>)) = [''curriculo'']"
  using SetCategory_always_wins [of "zero_DublinCore\<lparr>Category := [''other'', ''x'']\<rparr>" 3
      "[CallSetCategory, CallAddKeyword ''go'', CallSetTitle ''T'']"]
    SetCategory_always_wins [of "zero_DublinCore\<lparr>Category := []\<rparr>" 3
      "[CallSetCategory, CallAddKeyword ''go'', CallSetTitle ''T'']"]
  by simp

section \<open>Save copies every other member\<close>

lemma zw_Create_ok:
  "zw_Create w name = (None, w') \<Longrightarrow> entries w' = entries w @ [(name, [])]"
  by (auto simp: zw_Create_def next_fault_def split: list.splits option.splits)

lemma zw_Write_ok:
  "zw_Write w p = (None, w') \<Longrightarrow> entries w = es @ [(name, c)] \<Longrightarrow> entries w' = es @ [(name, c @ p)]"
  by (auto simp: zw_Write_def next_fault_def split: list.splits option.splits)

lemma io_Copy_ok:
  "io_Copy w src = (None, w') \<Longrightarrow> entries w = es @ [(name, [])]
   \<Longrightarrow> \<exists>content. src = (content, None) \<and> entries w' = es @ [(name, content)]"
  by (cases src) (auto simp: io_Copy_def split: if_splits option.splits prod.splits dest: zw_Write_ok)

lemma copyZipFile_ok:
  "copyZipFile w f = (None, w')
   \<Longrightarrow> \<exists>content. Opened f = Inr (content, None) \<and> entries w' = entries w @ [(Name f, content)]"
  by (auto simp: copyZipFile_def split: sum.splits option.splits prod.splits
      dest!: zw_Create_ok dest: io_Copy_ok)

lemma writeCoreProperties_ok:
  "writeCoreProperties L d w = (None, w')
   \<Longrightarrow> \<exists>data. ToXML L (coreProps_of (DublinCore d)) = Inr data
         \<and> entries w' = entries w @ [(corePropertiesPath, data)]"
  by (auto simp: writeCoreProperties_def split: sum.splits option.splits prod.splits
      dest!: zw_Create_ok dest: zw_Write_ok)

lemma Save_loop_ok:
  "Save_loop L d files w = (None, w')
   \<Longrightarrow> \<exists>es. entries w' = entries w @ es \<and> list_all2 (written_for L d) files es"
proof (induction files arbitrary: w)
  case Nil
  then show ?case by simp
next
  case (Cons f fs)
  show ?case
  proof (cases "Name f = corePropertiesPath")
    case True
    with Cons.prems obtain w1 where w1: "writeCoreProperties L d w = (None, w1)"
      and rest: "Save_loop L d fs w1 = (None, w')"
      by (auto split: prod.splits option.splits)
    from writeCoreProperties_ok [OF w1] obtain data
      where data: "ToXML L (coreProps_of (DublinCore d)) = Inr data"
        and e1: "entries w1 = entries w @ [(corePropertiesPath, data)]"
      by blast
    from Cons.IH [OF rest] obtain es
      where es: "entries w' = entries w1 @ es" "list_all2 (written_for L d) fs es"
      by blast
    have "written_for L d f (corePropertiesPath, data)"
      using True data by (simp add: written_for_def)
    with es e1 show ?thesis
      by (intro exI [of _ "(corePropertiesPath, data) # es"]) simp
  next
    case False
    with Cons.prems obtain w1 where w1: "copyZipFile w f = (None, w1)"
      and rest: "Save_loop L d fs w1 = (None, w')"
      by (auto split: prod.splits option.splits)
    from copyZipFile_ok [OF w1] obtain content
      where content: "Opened f = Inr (content, None)"
        and e1: "entries w1 = entries w @ [(Name f, content)]"
      by blast
    from Cons.IH [OF rest] obtain es
      where es: "entries w' = entries w1 @ es" "list_all2 (written_for L d) fs es"
      by blast
    have "written_for L d f (Name f, content)"
      using False content by (simp add: written_for_def)
    with es e1 show ?thesis
      by (intro exI [of _ "(Name f, content) # es"]) simp
  qed
qed

lemma entries_zw_Close: "entries (zw_Close w) = entries w"
  by (simp add: zw_Close_def next_fault_def split: list.splits option.splits)

lemma Save_ok:
  assumes "zip_NewReader L (FileData d) = Inr files"
    and "Save L d outputPath = (None, out)"
  shows "\<exists>w. out = Some (if outputPath = [] then FilePath d else outputPath, w)
             \<and> list_all2 (written_for L d) files (entries w)"
proof -
  from assms obtain outFile w0 where
    loop: "Save_loop L d files (zip_NewWriter outFile) = (None, w0)"
    and out: "out = Some (if outputPath = [] then FilePath d else outputPath, zw_Close w0)"
    by (auto simp: Save_def Let_def split: sum.splits prod.splits if_splits)
  from Save_loop_ok [OF loop] have "list_all2 (written_for L d) files (entries w0)"
    by (simp add: zip_NewWriter_def)
  with out show ?thesis by (simp add: entries_zw_Close)
qed

text \<open>
  C1. When \<open>Save\<close> returns no error, the archive it wrote has one member for each member of
  the source archive, under the same name and in the same order, and every member not
  named \<open>docProps/core.xml\<close> holds exactly the bytes read from the source member; so the
  members other than the metadata entry are the same, and in the same order, in both.
\<close>

theorem Save_preserves_other_entries:
  assumes "zip_NewReader L (FileData d) = Inr files"
    and "Save L d outputPath = (None, out)"
  shows "\<exists>w. out = Some (if outputPath = [] then FilePath d else outputPath, w)
           \<and> map fst (entries w) = map Name files
           \<and> (\<forall>i < length files. Name (files ! i) \<noteq> corePropertiesPath
                 \<longrightarrow> Opened (files ! i) = Inr (snd (entries w ! i), None))
           \<and> filter (\<lambda>name. name \<noteq> corePropertiesPath) (map fst (entries w))
               = filter (\<lambda>name. name \<noteq> corePropertiesPath) (map Name files)"
proof -
  from Save_ok [OF assms] obtain w
    where out: "out = Some (if outputPath = [] then FilePath d else outputPath, w)"
      and all: "list_all2 (written_for L d) files (entries w)"
    by blast
  have names: "map fst (entries w) = map Name files"
    using all by (induction rule: list_all2_induct) (simp_all add: written_for_def)
  have "Opened (files ! i) = Inr (snd (entries w ! i), None)"
    if "i < length files" "Name (files ! i) \<noteq> corePropertiesPath" for i
    using list_all2_nthD [OF all that(1)] that(2) by (simp add: written_for_def)
  with out names show ?thesis by simp
qed

theorem Save_preserves_other_entries_witness:
  "zip_NewReader example_lib (FileData edited_old) = Inr (archive_around core_old)
   \<and> fst (Save example_lib edited_old ''out.docx'') = None
   \<and> (\<exists>w. snd (Save example_lib edited_old ''out.docx'') = Some (''out.docx'', w)
          \<and> map fst (entries w) = [''[Content_Types].xml'', ''docProps/core.xml'', ''word/document.xml'']
          \<and> snd (entries w ! 0) = ''<Types/>''
          \<and> snd (entries w ! 2) = ''<w:document/>'')"
proof -
  have 1: "zip_NewReader example_lib (FileData edited_old) = Inr (archive_around core_old)"
    by (simp add: edited_old_def example_lib_def table_lib_def table_lookup_def example_archives_def)
  have loop: "fst (Save_loop example_lib edited_old (archive_around core_old) (zip_NewWriter [])) = None"
    by (simp add: archive_around_def member_def corePropertiesPath_def copyZipFile_def
        writeCoreProperties_def zw_Create_def zw_Write_def next_fault_def zip_NewWriter_def
        io_Copy_def ToXML_def MarshalIndent_def Let_def)
  have create: "os_Create example_lib ''out.docx'' = Inr []"
    by (simp add: example_lib_def table_lib_def)
  have 2: "fst (Save example_lib edited_old ''out.docx'') = None"
    using 1 create loop by (auto simp: Save_def split: prod.splits)
  then have 3: "Save example_lib edited_old ''out.docx''
                  = (None, snd (Save example_lib edited_old ''out.docx''))"
    by (metis prod.collapse)
  from Save_preserves_other_entries [OF 1 3] obtain w
    where w: "snd (Save example_lib edited_old ''out.docx'') = Some (''out.docx'', w)"
      and names: "map fst (entries w) = map Name (archive_around core_old)"
      and same: "\<forall>i < length (archive_around core_old).
                   Name (archive_around core_old ! i) \<noteq> corePropertiesPath
                   \<longrightarrow> Opened (archive_around core_old ! i) = Inr (snd (entries w ! i), None)"
    by auto
  from same [rule_format, of 0] have "snd (entries w ! 0) = ''<Types/>''"
    by (simp add: archive_around_def member_def corePropertiesPath_def)
  moreover from same [rule_format, of 2] have "snd (entries w ! 2) = ''<w:document/>''"
    by (simp add: archive_around_def member_def corePropertiesPath_def)
  ultimately show ?thesis
    using 1 2 w names by (simp add: archive_around_def member_def)
qed

section \<open>Opening a document\<close>

lemma findFile_absent:
  "\<forall>f \<in> set files. Name f \<noteq> name \<Longrightarrow> findFile files name = Inl (Error (''file not found: '' @ name))"
  by (induction files) simp_all

text \<open>
  C5. Opening a readable archive with no member named \<open>docProps/core.xml\<close> returns a
  container, not an error, and its record is the default record: the date is the clock
  reading, the format the DOCX MIME type, the category \<open>["curriculo"]\<close>.
\<close>

theorem Open_without_metadata_entry:
  assumes "os_ReadFile L filePath = Inr fileData"
    and "zip_NewReader L fileData = Inr files"
    and "\<forall>f \<in> set files. Name f \<noteq> corePropertiesPath"
  shows "Open L clk filePath
           = Some (Return \<lparr>FilePath = filePath, DublinCore = New clk, FileData = fileData\<rparr>)
         \<and> Date (New clk) = [clk 0] \<and> Format (New clk) = [docx_mime]
         \<and> Category (New clk) = [''curriculo'']"
  using assms findFile_absent [of files corePropertiesPath]
  by (simp add: Open_def New_def)

theorem Open_without_metadata_entry_witness:
  "os_ReadFile example_lib ''plain.docx'' = Inr ''PK:plain''
   \<and> zip_NewReader example_lib ''PK:plain'' = Inr archive_plain
   \<and> corePropertiesPath \<notin> Name ` set archive_plain
   \<and> Open example_lib example_clock ''plain.docx''
       = Some (Return \<lparr>FilePath = ''plain.docx'', DublinCore = New example_clock, FileData = ''PK:plain''\<rparr>)
   \<and> Category (New example_clock) = [''curriculo'']"
proof -
  have 1: "os_ReadFile example_lib ''plain.docx'' = Inr ''PK:plain''"
    by (simp add: example_lib_def table_lib_def table_lookup_def example_files_def)
  have 2: "zip_NewReader example_lib ''PK:plain'' = Inr archive_plain"
    by (simp add: example_lib_def table_lib_def table_lookup_def example_archives_def)
  have 3: "\<forall>f \<in> set archive_plain. Name f \<noteq> corePropertiesPath"
    by (simp add: archive_plain_def member_def corePropertiesPath_def)
  from Open_without_metadata_entry [OF 1 2 3, of example_clock] 1 2 3 show ?thesis
    by auto
qed

text \<open>
  C6. When the bytes of the file are not a zip archive, \<open>Open\<close> returns the error of the
  zip reader, wrapped, and no container.
\<close>

theorem Open_rejects_non_archive:
  assumes "os_ReadFile L filePath = Inr fileData"
    and "zip_NewReader L fileData = Inl err"
  shows "Open L clk filePath = Some (Failure (Errorf ''failed to create zip reader'' err))
         \<and> (\<forall>d. Open L clk filePath \<noteq> Some (Return d))"
  using assms by (simp add: Open_def)

theorem Open_rejects_non_archive_witness:
  "os_ReadFile example_lib ''notes.txt'' = Inr ''just some notes''
   \<and> zip_NewReader example_lib ''just some notes'' = Inl (Error ''zip: not a valid zip file'')
   \<and> Open example_lib example_clock ''notes.txt''
       = Some (Failure (Error ''failed to create zip reader: zip: not a valid zip file''))
   \<and> (\<forall>d. Open example_lib example_clock ''notes.txt'' \<noteq> Some (Return d))"
proof -
  have 1: "os_ReadFile example_lib ''notes.txt'' = Inr ''just some notes''"
    by (simp add: example_lib_def table_lib_def table_lookup_def example_files_def)
  have 2: "zip_NewReader example_lib ''just some notes'' = Inl (Error ''zip: not a valid zip file'')"
    by (simp add: example_lib_def table_lib_def table_lookup_def example_archives_def)
  from Open_rejects_non_archive [OF 1 2, of example_clock] 1 2 show ?thesis
    by simp
qed

text \<open>
  An error that the decoding returns does not reach the caller of \<open>Open\<close>: the container
  keeps the default record. So it is for an entry with no element at all, and for the
  entry of \<open>cut.docx\<close>, which ends inside its root.
\<close>

lemma extractDublinCore_undecodable:
  "xml_Decode L data = Inl (err, None) \<Longrightarrow> extractDublinCore L clk data = Some (Failure err)"
  by (simp add: extractDublinCore_def parseCoreXML_def Unmarshal_coreProps_def decode_rawDC_def
      Unmarshal_DublinCore_def)

lemma Open_recovers_from_returned_error:
  assumes "os_ReadFile L filePath = Inr fileData"
    and "zip_NewReader L fileData = Inr files"
    and "findFile files corePropertiesPath = Inr coreFile"
    and "readZipFile coreFile = Inr coreData"
    and "extractDublinCore L (tick clk) coreData = Some (Failure err)"
  shows "Open L clk filePath
           = Some (Return \<lparr>FilePath = filePath, DublinCore = New clk, FileData = fileData\<rparr>)"
  using assms by (simp add: Open_def)

lemma Open_cut_entry:
  "extractDublinCore example_lib (tick example_clock) core_cut
     = Some (Failure (Error ''expected element type <dc> but have <coreProperties>''))
   \<and> Open example_lib example_clock ''cut.docx''
       = Some (Return \<lparr>FilePath = ''cut.docx'', DublinCore = New example_clock, FileData = ''PK:cut''\<rparr>)"
proof -
  have 1: "os_ReadFile example_lib ''cut.docx'' = Inr ''PK:cut''"
    by (simp add: lib_defs example_files_def)
  have 2: "zip_NewReader example_lib ''PK:cut'' = Inr (archive_around core_cut)"
    by (simp add: lib_defs example_archives_def)
  have 3: "findFile (archive_around core_cut) corePropertiesPath = Inr (member ''docProps/core.xml'' core_cut)"
    by (simp add: archive_around_def member_def corePropertiesPath_def)
  have 4: "readZipFile (member ''docProps/core.xml'' core_cut) = Inr core_cut"
    by (simp add: readZipFile_def member_def)
  have "xml_Decode example_lib core_cut
          = Inl (Error ''XML syntax error on line 1: unexpected EOF'', Some root_plain)"
    by (simp add: lib_defs doc_defs)
  then have 5: "extractDublinCore example_lib (tick example_clock) core_cut
                  = Some (Failure (Error ''expected element type <dc> but have <coreProperties>''))"
    by (simp add: extractDublinCore_def parseCoreXML_def Unmarshal_coreProps_def decode_rawDC_def
        Unmarshal_DublinCore_def root_plain_def)
  from Open_recovers_from_returned_error [OF 1 2 3 4 5] 5 show ?thesis
    by simp
qed

section \<open>Decoding the metadata entry\<close>

text \<open>
  C7. A document with a \<open>coreProperties\<close> root that holds a description and no title,
  creator or keywords: \<open>parseCoreXML\<close> accepts it and returns a record with that
  description, but \<open>extractDublinCore\<close>, whose test leaves the description out, drops
  that record and tries the raw Dublin Core decode, which fails on the root's name. The
  witness is the entry of \<open>description.docx\<close>; \<open>Open_description_only\<close> shows the default
  record, without the description, that \<open>Open\<close> then returns.
\<close>

theorem description_only_is_discarded:
  assumes "xml_Decode L data = Inr (root, content)"
    and "Local root = ''coreProperties''"
    and "field_values (tag_local ''title'') content = []"
    and "field_values (tag_local ''creator'') content = []"
    and "field_values (tag_local ''keywords'') content = []"
    and "field_values (tag_local ''description'') content \<noteq> []"
  shows "(\<exists>dc. parseCoreXML L clk data = Some (Return dc)
               \<and> Description dc = field_values (tag_local ''description'') content)
         \<and> extractDublinCore L clk data
             = Some (Failure (Error ''expected element type <dc> but have <coreProperties>''))"
  using assms
  by (simp add: extractDublinCore_def parseCoreXML_def Unmarshal_coreProps_def map_coreProps_def
      New_def zero_DublinCore_def decode_rawDC_def Unmarshal_DublinCore_def Let_def)

lemma decode_core_description:
  "xml_Decode example_lib core_description
     = Inr (root_plain, [Element \<lparr>Space = [], Local = ''description''\<rparr> [CharData ''Hello'']])"
  by (simp add: lib_defs doc_defs)

theorem description_only_is_discarded_witness:
  "xml_Decode example_lib core_description
     = Inr (root_plain, [Element \<lparr>Space = [], Local = ''description''\<rparr> [CharData ''Hello'']])
   \<and> Local root_plain = ''coreProperties''
   \<and> field_values (tag_local ''description'')
         [Element \<lparr>Space = [], Local = ''description''\<rparr> [CharData ''Hello'']] = [''Hello'']
   \<and> (\<exists>dc. parseCoreXML example_lib example_clock core_description = Some (Return dc)
            \<and> Description dc = [''Hello''])
   \<and> extractDublinCore example_lib example_clock core_description
         = Some (Failure (Error ''expected element type <dc> but have <coreProperties>''))"
proof -
  let ?content = "[Element \<lparr>Space = [], Local = ''description''\<rparr> [CharData ''Hello'']]"
  have 2: "Local root_plain = ''coreProperties''"
    by (simp add: root_plain_def)
  have 3: "field_values (tag_local ''title'') ?content = []"
    and 4: "field_values (tag_local ''creator'') ?content = []"
    and 5: "field_values (tag_local ''keywords'') ?content = []"
    and 6: "field_values (tag_local ''description'') ?content = [''Hello'']"
    by (simp_all add: field_values_def tag_local_def chardata_def)
  from 6 have 7: "field_values (tag_local ''description'') ?content \<noteq> []"
    by simp
  from description_only_is_discarded [OF decode_core_description 2 3 4 5 7, of example_clock]
    decode_core_description 2 6
  show ?thesis by simp
qed

lemma Open_description_only:
  "Open example_lib example_clock ''description.docx''
     = Some (Return \<lparr>FilePath = ''description.docx'', DublinCore = New example_clock,
                     FileData = ''PK:description''\<rparr>)
   \<and> Description (New example_clock) = []"
proof -
  have 1: "os_ReadFile example_lib ''description.docx'' = Inr ''PK:description''"
    by (simp add: lib_defs example_files_def)
  have 2: "zip_NewReader example_lib ''PK:description'' = Inr (archive_around core_description)"
    by (simp add: lib_defs example_archives_def)
  have 3: "findFile (archive_around core_description) corePropertiesPath
             = Inr (member ''docProps/core.xml'' core_description)"
    by (simp add: archive_around_def member_def corePropertiesPath_def)
  have 4: "readZipFile (member ''docProps/core.xml'' core_description) = Inr core_description"
    by (simp add: readZipFile_def member_def)
  have 5: "extractDublinCore example_lib (tick example_clock) core_description
             = Some (Failure (Error ''expected element type <dc> but have <coreProperties>''))"
    using decode_core_description
    by (simp add: extractDublinCore_def parseCoreXML_def Unmarshal_coreProps_def map_coreProps_def
      New_def zero_DublinCore_def decode_rawDC_def Unmarshal_DublinCore_def Let_def
      field_values_def tag_local_def chardata_def root_plain_def)
  show ?thesis
    using 1 2 3 4 5 by (simp add: Open_def New_def zero_DublinCore_def)
qed

lemma fallback_panics:
  "parseCoreXMLAlternative L clk core_subjects = Some (Panic slice_panic)"
  by (simp add: parseCoreXMLAlternative_def possibleTags_def core_subjects_def extractField_def
      extractField_loop.simps slice_def slice_from_def Let_def)

lemma decode_core_subjects:
  "xml_Decode example_lib core_subjects
     = Inr (root_plain, [Element \<lparr>Space = ''cp'', Local = ''subject''\<rparr> [CharData ''a''],
          Element \<lparr>Space = ''cp'', Local = ''subject''\<rparr> [CharData ''b'']])"
  by (simp add: lib_defs doc_defs)

text \<open>
  The fallback on its own. Where each tag occurs once it returns the trimmed values, and
  a later spelling of a field's tag overwrites an earlier one. Where \<open>cp:creator\<close> occurs
  twice after a title, the offsets of the loop of \<open>extractField\<close> alternate between 41 and
  26 and the loop never returns.
\<close>

lemma fallback_recovers_single_values:
  "parseCoreXMLAlternative L clk core_cp_only
   = Some (Return ((New clk)\<lparr>Title := [strings_TrimSpace L ''T''],
                               Creator := [strings_TrimSpace L ''C''],
                               Subject := [strings_TrimSpace L ''S''],
                               Description := [strings_TrimSpace L '' D ''],
                               Keywords := [strings_TrimSpace L ''K'']\<rparr>))"
proof -
  have found: "extractField L core_cp_only ''cp:title'' = Some (Return [strings_TrimSpace L ''T''])"
    "extractField L core_cp_only ''cp:creator'' = Some (Return [strings_TrimSpace L ''C''])"
    "extractField L core_cp_only ''cp:subject'' = Some (Return [strings_TrimSpace L ''S''])"
    "extractField L core_cp_only ''cp:description'' = Some (Return [strings_TrimSpace L '' D ''])"
    "extractField L core_cp_only ''cp:keywords'' = Some (Return [strings_TrimSpace L ''K''])"
    by (simp_all add: extractField_def core_cp_only_def extractField_loop.simps
        slice_def slice_from_def Let_def)
  have absent: "extractField L core_cp_only ''dc:title'' = Some (Return [])"
    "extractField L core_cp_only ''title'' = Some (Return [])"
    "extractField L core_cp_only ''dc:creator'' = Some (Return [])"
    "extractField L core_cp_only ''creator'' = Some (Return [])"
    "extractField L core_cp_only ''dc:subject'' = Some (Return [])"
    "extractField L core_cp_only ''subject'' = Some (Return [])"
    "extractField L core_cp_only ''dc:description'' = Some (Return [])"
    "extractField L core_cp_only ''description'' = Some (Return [])"
    "extractField L core_cp_only ''keywords'' = Some (Return [])"
    "extractField L core_cp_only ''cp:category'' = Some (Return [])"
    "extractField L core_cp_only ''category'' = Some (Return [])"
    by (simp_all add: extractField_def core_cp_only_def extractField_loop.simps
        slice_def slice_from_def Let_def)
  show ?thesis
    by (simp add: parseCoreXMLAlternative_def possibleTags_def found absent switch_tag_def)
qed

lemma fallback_last_match_wins:
  "\<exists>dc. parseCoreXMLAlternative L clk core_two_titles = Some (Return dc)
        \<and> Title dc = [strings_TrimSpace L ''B'']"
proof -
  have found: "extractField L core_two_titles ''dc:title'' = Some (Return [strings_TrimSpace L ''A''])"
    "extractField L core_two_titles ''cp:title'' = Some (Return [strings_TrimSpace L ''B''])"
    by (simp_all add: extractField_def core_two_titles_def extractField_loop.simps
        slice_def slice_from_def Let_def)
  have absent: 
    "extractField L core_two_titles ''title'' = Some (Return [])"
    "extractField L core_two_titles ''dc:creator'' = Some (Return [])"
    "extractField L core_two_titles ''creator'' = Some (Return [])"
    "extractField L core_two_titles ''cp:creator'' = Some (Return [])"
    "extractField L core_two_titles ''dc:subject'' = Some (Return [])"
    "extractField L core_two_titles ''subject'' = Some (Return [])"
    "extractField L core_two_titles ''cp:subject'' = Some (Return [])"
    "extractField L core_two_titles ''dc:description'' = Some (Return [])"
    "extractField L core_two_titles ''description'' = Some (Return [])"
    "extractField L core_two_titles ''cp:description'' = Some (Return [])"
    "extractField L core_two_titles ''cp:keywords'' = Some (Return [])"
    "extractField L core_two_titles ''keywords'' = Some (Return [])"
    "extractField L core_two_titles ''cp:category'' = Some (Return [])"
    "extractField L core_two_titles ''category'' = Some (Return [])"
    by (simp_all add: extractField_def core_two_titles_def extractField_loop.simps
        slice_def slice_from_def Let_def)
  show ?thesis
    by (simp add: parseCoreXMLAlternative_def possibleTags_def found absent switch_tag_def)
qed

lemma creator_loop_never_returns:
  assumes "extractField_loop L xmlStr startTag endTag start vals = Some r"
  shows "\<not> (xmlStr = core_two_creators \<and> startTag = ''<cp:creator>'' \<and> endTag = ''</cp:creator>''
            \<and> (start = 41 \<or> start = 26))"
proof (rule extractField_loop.raw_induct
    [where P = "\<lambda>L xmlStr startTag endTag start vals r.
       \<not> (xmlStr = core_two_creators \<and> startTag = ''<cp:creator>'' \<and> endTag = ''</cp:creator>''
            \<and> (start = 41 \<or> start = 26))",
     OF _ assms])
  fix loop :: "golib \<Rightarrow> string \<Rightarrow> string \<Rightarrow> string \<Rightarrow> int \<Rightarrow> string list \<Rightarrow> string list outcome option"
    and L xmlStr startTag endTag start vals r
  assume IH: "\<And>L xmlStr startTag endTag start vals r.
      loop L xmlStr startTag endTag start vals = Some r \<Longrightarrow>
      \<not> (xmlStr = core_two_creators \<and> startTag = ''<cp:creator>'' \<and> endTag = ''</cp:creator>''
            \<and> (start = 41 \<or> start = 26))"
  assume body: "(if start \<noteq> - 1 then
        (case slice_from xmlStr start of
           None \<Rightarrow> Some (Panic slice_panic)
         | Some rest \<Rightarrow>
             (let end = strings_Index rest endTag in
              if end = - 1 then Some (Return vals)
              else
                (case slice xmlStr (start + int (length startTag)) (start + end) of
                   None \<Rightarrow> Some (Panic slice_panic)
                 | Some val \<Rightarrow>
                     (case slice_from xmlStr (start + end + int (length endTag)) of
                        None \<Rightarrow> Some (Panic slice_panic)
                      | Some rest' \<Rightarrow>
                          (let start' = strings_Index rest' startTag in
                           loop L xmlStr startTag endTag
                             (if start' \<noteq> - 1 then start' + end + int (length endTag) else start')
                             (vals @ [strings_TrimSpace L val]))))))
      else Some (Return vals)) = Some r"
  show "\<not> (xmlStr = core_two_creators \<and> startTag = ''<cp:creator>'' \<and> endTag = ''</cp:creator>''
            \<and> (start = 41 \<or> start = 26))"
  proof
    assume a: "xmlStr = core_two_creators \<and> startTag = ''<cp:creator>'' \<and> endTag = ''</cp:creator>''
            \<and> (start = 41 \<or> start = 26)"
    then consider "start = 41" | "start = 26" by blast
    then show False
    proof cases
      case 1
      with a body have "loop L core_two_creators ''<cp:creator>'' ''</cp:creator>'' 26
                          (vals @ [strings_TrimSpace L ''A'']) = Some r"
        by (simp add: core_two_creators_def slice_def slice_from_def Let_def)
      from IH [OF this] show False by simp
    next
      case 2
      with a body have "loop L core_two_creators ''<cp:creator>'' ''</cp:creator>'' 41
                          (vals @ [strings_TrimSpace L ''le><cp:creator>A'']) = Some r"
        by (simp add: core_two_creators_def slice_def slice_from_def Let_def)
      from IH [OF this] show False by simp
    qed
  qed
qed

lemma fallback_runs_forever_on_repeated_creator:
  "parseCoreXMLAlternative L clk core_two_creators = None"
proof -
  have creator: "extractField L core_two_creators ''cp:creator'' = None"
  proof (cases "extractField L core_two_creators ''cp:creator''")
    case None
    then show ?thesis .
  next
    case (Some r)
    then have "extractField_loop L core_two_creators ''<cp:creator>'' ''</cp:creator>'' 41 [] = Some r"
      by (simp add: extractField_def core_two_creators_def Let_def)
    from creator_loop_never_returns [OF this] show ?thesis by simp
  qed
  have before: "extractField L core_two_creators ''dc:title'' = Some (Return [])"
    "extractField L core_two_creators ''title'' = Some (Return [])"
    "extractField L core_two_creators ''cp:title'' = Some (Return [strings_TrimSpace L ''T''])"
    "extractField L core_two_creators ''dc:creator'' = Some (Return [])"
    "extractField L core_two_creators ''creator'' = Some (Return [])"
    by (simp_all add: extractField_def core_two_creators_def extractField_loop.simps
        slice_def slice_from_def Let_def)
  show ?thesis
    by (simp add: parseCoreXMLAlternative_def possibleTags_def before creator)
qed

text \<open>
  C8. On a metadata entry whose only elements are two \<open>cp:subject\<close> elements the
  substring-extraction fallback does not return the two values: the second pass of the
  loop of \<open>extractField\<close> starts from an offset that leaves out the previous start, and
  the slice it takes panics. The strict decode finds no title, creator, keywords or
  description in that entry, so \<open>Open\<close> reaches the fallback and panics with it.
\<close>

theorem fallback_panics_on_repeated_tag:
  "parseCoreXMLAlternative L clk core_subjects = Some (Panic slice_panic)
   \<and> Open example_lib example_clock ''subjects.docx'' = Some (Panic slice_panic)"
proof
  show "parseCoreXMLAlternative L clk core_subjects = Some (Panic slice_panic)"
    by (rule fallback_panics)
next
  have 1: "os_ReadFile example_lib ''subjects.docx'' = Inr ''PK:subjects''"
    by (simp add: lib_defs example_files_def)
  have 2: "zip_NewReader example_lib ''PK:subjects'' = Inr (archive_around core_subjects)"
    by (simp add: lib_defs example_archives_def)
  have 3: "findFile (archive_around core_subjects) corePropertiesPath
             = Inr (member ''docProps/core.xml'' core_subjects)"
    by (simp add: archive_around_def member_def corePropertiesPath_def)
  have 4: "readZipFile (member ''docProps/core.xml'' core_subjects) = Inr core_subjects"
    by (simp add: readZipFile_def member_def)
  have "parseCoreXML example_lib (tick example_clock) core_subjects = Some (Panic slice_panic)"
    using decode_core_subjects fallback_panics [of example_lib "tick (tick example_clock)"]
    by (simp add: parseCoreXML_def Unmarshal_coreProps_def map_coreProps_def
      New_def zero_DublinCore_def Let_def field_values_def tag_local_def chardata_def root_plain_def)
  then have 5: "extractDublinCore example_lib (tick example_clock) core_subjects = Some (Panic slice_panic)"
    by (simp add: extractDublinCore_def)
  show "Open example_lib example_clock ''subjects.docx'' = Some (Panic slice_panic)"
    using 1 2 3 4 5 by (simp add: Open_def)
qed

section \<open>Opening a document whose entry the fallback breaks on\<close>

lemma subject_loop_never_returns:
  assumes "extractField_loop L xmlStr startTag endTag start vals = Some r"
  shows "\<not> (xmlStr = core_revision \<and> startTag = ''<cp:subject>'' \<and> endTag = ''</cp:subject>''
            \<and> (start = 45 \<or> start = 26))"
proof (rule extractField_loop.raw_induct
    [where P = "\<lambda>L xmlStr startTag endTag start vals r.
       \<not> (xmlStr = core_revision \<and> startTag = ''<cp:subject>'' \<and> endTag = ''</cp:subject>''
            \<and> (start = 45 \<or> start = 26))",
     OF _ assms])
  fix loop :: "golib \<Rightarrow> string \<Rightarrow> string \<Rightarrow> string \<Rightarrow> int \<Rightarrow> string list \<Rightarrow> string list outcome option"
    and L xmlStr startTag endTag start vals r
  assume IH: "\<And>L xmlStr startTag endTag start vals r.
      loop L xmlStr startTag endTag start vals = Some r \<Longrightarrow>
      \<not> (xmlStr = core_revision \<and> startTag = ''<cp:subject>'' \<and> endTag = ''</cp:subject>''
            \<and> (start = 45 \<or> start = 26))"
  assume body: "(if start \<noteq> - 1 then
        (case slice_from xmlStr start of
           None \<Rightarrow> Some (Panic slice_panic)
         | Some rest \<Rightarrow>
             (let end = strings_Index rest endTag in
              if end = - 1 then Some (Return vals)
              else
                (case slice xmlStr (start + int (length startTag)) (start + end) of
                   None \<Rightarrow> Some (Panic slice_panic)
                 | Some val \<Rightarrow>
                     (case slice_from xmlStr (start + end + int (length endTag)) of
                        None \<Rightarrow> Some (Panic slice_panic)
                      | Some rest' \<Rightarrow>
                          (let start' = strings_Index rest' startTag in
                           loop L xmlStr startTag endTag
                             (if start' \<noteq> - 1 then start' + end + int (length endTag) else start')
                             (vals @ [strings_TrimSpace L val]))))))
      else Some (Return vals)) = Some r"
  show "\<not> (xmlStr = core_revision \<and> startTag = ''<cp:subject>'' \<and> endTag = ''</cp:subject>''
            \<and> (start = 45 \<or> start = 26))"
  proof
    assume a: "xmlStr = core_revision \<and> startTag = ''<cp:subject>'' \<and> endTag = ''</cp:subject>''
            \<and> (start = 45 \<or> start = 26)"
    then consider "start = 45" | "start = 26" by blast
    then show False
    proof cases
      case 1
      with a body have "loop L core_revision ''<cp:subject>'' ''</cp:subject>'' 26
                          (vals @ [strings_TrimSpace L ''a'']) = Some r"
        by (simp add: core_revision_def slice_def slice_from_def Let_def)
      from IH [OF this] show False by simp
    next
      case 2
      with a body have "loop L core_revision ''<cp:subject>'' ''</cp:subject>'' 45
                          (vals @ [strings_TrimSpace L ''vision><cp:subject>a'']) = Some r"
        by (simp add: core_revision_def slice_def slice_from_def Let_def)
      from IH [OF this] show False by simp
    qed
  qed
qed

lemma fallback_runs_forever_on_revision:
  "parseCoreXMLAlternative L clk core_revision = None"
proof -
  have subject: "extractField L core_revision ''cp:subject'' = None"
  proof (cases "extractField L core_revision ''cp:subject''")
    case None
    then show ?thesis .
  next
    case (Some r)
    then have "extractField_loop L core_revision ''<cp:subject>'' ''</cp:subject>'' 45 [] = Some r"
      by (simp add: extractField_def core_revision_def Let_def)
    from subject_loop_never_returns [OF this] show ?thesis by simp
  qed
  have absent: "extractField L core_revision ''dc:title'' = Some (Return [])"
    "extractField L core_revision ''title'' = Some (Return [])"
    "extractField L core_revision ''cp:title'' = Some (Return [])"
    "extractField L core_revision ''dc:creator'' = Some (Return [])"
    "extractField L core_revision ''creator'' = Some (Return [])"
    "extractField L core_revision ''cp:creator'' = Some (Return [])"
    "extractField L core_revision ''dc:subject'' = Some (Return [])"
    "extractField L core_revision ''subject'' = Some (Return [])"
    by (simp_all add: extractField_def core_revision_def extractField_loop.simps
        slice_def slice_from_def Let_def)
  show ?thesis
    by (simp add: parseCoreXMLAlternative_def possibleTags_def absent subject)
qed

text \<open>
  What the strict decode and the raw Dublin Core decode make of an entry whose root is
  \<open>coreProperties\<close> and that holds no title, creator, keywords or description: the first
  finds nothing to accept, the second fails on the root's name.
\<close>

lemma strict_finds_nothing:
  assumes "xml_Decode L data = Inr (root, content)"
    and "Local root = ''coreProperties''"
    and "field_values (tag_local ''title'') content = []"
    and "field_values (tag_local ''creator'') content = []"
    and "field_values (tag_local ''keywords'') content = []"
    and "field_values (tag_local ''description'') content = []"
  shows "parseCoreXML L clk data = parseCoreXMLAlternative L (tick clk) data"
    and "Unmarshal_DublinCore L data
           = Inl (Error ''expected element type <dc> but have <coreProperties>'')"
  using assms
  by (simp_all add: parseCoreXML_def Unmarshal_coreProps_def map_coreProps_def New_def
      zero_DublinCore_def Let_def Unmarshal_DublinCore_def)

lemma decode_core_revision:
  "xml_Decode example_lib core_revision
     = Inr (root_plain, [Element \<lparr>Space = ''cp'', Local = ''revision''\<rparr> [CharData ''12''],
          Element \<lparr>Space = ''cp'', Local = ''subject''\<rparr> [CharData ''a''],
          Element \<lparr>Space = ''cp'', Local = ''subject''\<rparr> [CharData ''b'']])"
  by (simp add: lib_defs doc_defs)

text \<open>
  C4. The entries of \<open>subjects.docx\<close> and \<open>revision.docx\<close> are present and readable, and
  no decode strategy gets a record out of them: the strict decode finds no title,
  creator, keywords or description, the raw Dublin Core decode fails on the root's
  name, and the fallback breaks on the repeated \<open>cp:subject\<close>. \<open>Open\<close> does not return the
  default record for them: on the first it panics, on the second it never returns.
\<close>

theorem Open_aborts_when_fallback_breaks:
  "os_ReadFile example_lib ''subjects.docx'' = Inr ''PK:subjects''
   \<and> zip_NewReader example_lib ''PK:subjects'' = Inr (archive_around core_subjects)
   \<and> findFile (archive_around core_subjects) corePropertiesPath
       = Inr (member ''docProps/core.xml'' core_subjects)
   \<and> readZipFile (member ''docProps/core.xml'' core_subjects) = Inr core_subjects
   \<and> parseCoreXML example_lib (tick example_clock) core_subjects
       = parseCoreXMLAlternative example_lib (tick (tick example_clock)) core_subjects
   \<and> Unmarshal_DublinCore example_lib core_subjects
       = Inl (Error ''expected element type <dc> but have <coreProperties>'')
   \<and> Open example_lib example_clock ''subjects.docx'' = Some (Panic slice_panic)
   \<and> os_ReadFile example_lib ''revision.docx'' = Inr ''PK:revision''
   \<and> zip_NewReader example_lib ''PK:revision'' = Inr (archive_around core_revision)
   \<and> findFile (archive_around core_revision) corePropertiesPath
       = Inr (member ''docProps/core.xml'' core_revision)
   \<and> readZipFile (member ''docProps/core.xml'' core_revision) = Inr core_revision
   \<and> parseCoreXML example_lib (tick example_clock) core_revision
       = parseCoreXMLAlternative example_lib (tick (tick example_clock)) core_revision
   \<and> Unmarshal_DublinCore example_lib core_revision
       = Inl (Error ''expected element type <dc> but have <coreProperties>'')
   \<and> Open example_lib example_clock ''revision.docx'' = None"
proof -
  have s1: "os_ReadFile example_lib ''subjects.docx'' = Inr ''PK:subjects''"
    by (simp add: lib_defs example_files_def)
  have s2: "zip_NewReader example_lib ''PK:subjects'' = Inr (archive_around core_subjects)"
    by (simp add: lib_defs example_archives_def)
  have s3: "findFile (archive_around core_subjects) corePropertiesPath
             = Inr (member ''docProps/core.xml'' core_subjects)"
    by (simp add: archive_around_def member_def corePropertiesPath_def)
  have s4: "readZipFile (member ''docProps/core.xml'' core_subjects) = Inr core_subjects"
    by (simp add: readZipFile_def member_def)
  have s5: "parseCoreXML example_lib (tick example_clock) core_subjects
             = parseCoreXMLAlternative example_lib (tick (tick example_clock)) core_subjects"
    and s6: "Unmarshal_DublinCore example_lib core_subjects
             = Inl (Error ''expected element type <dc> but have <coreProperties>'')"
    by (rule strict_finds_nothing [OF decode_core_subjects];
        simp add: root_plain_def field_values_def tag_local_def chardata_def)+
  have "extractDublinCore example_lib (tick example_clock) core_subjects = Some (Panic slice_panic)"
    by (simp add: extractDublinCore_def s5 fallback_panics)
  then have s7: "Open example_lib example_clock ''subjects.docx'' = Some (Panic slice_panic)"
    using s1 s2 s3 s4 by (simp add: Open_def)
  have r1: "os_ReadFile example_lib ''revision.docx'' = Inr ''PK:revision''"
    by (simp add: lib_defs example_files_def)
  have r2: "zip_NewReader example_lib ''PK:revision'' = Inr (archive_around core_revision)"
    by (simp add: lib_defs example_archives_def)
  have r3: "findFile (archive_around core_revision) corePropertiesPath
             = Inr (member ''docProps/core.xml'' core_revision)"
    by (simp add: archive_around_def member_def corePropertiesPath_def)
  have r4: "readZipFile (member ''docProps/core.xml'' core_revision) = Inr core_revision"
    by (simp add: readZipFile_def member_def)
  have r5: "parseCoreXML example_lib (tick example_clock) core_revision
             = parseCoreXMLAlternative example_lib (tick (tick example_clock)) core_revision"
    and r6: "Unmarshal_DublinCore example_lib core_revision
             = Inl (Error ''expected element type <dc> but have <coreProperties>'')"
    by (rule strict_finds_nothing [OF decode_core_revision];
        simp add: root_plain_def field_values_def tag_local_def chardata_def)+
  have "extractDublinCore example_lib (tick example_clock) core_revision = None"
    by (simp add: extractDublinCore_def r5 fallback_runs_forever_on_revision)
  then have r7: "Open example_lib example_clock ''revision.docx'' = None"
    using r1 r2 r3 r4 by (simp add: Open_def)
  from s1 s2 s3 s4 s5 s6 s7 r1 r2 r3 r4 r5 r6 r7 show ?thesis
    by (intro conjI)
qed

section \<open>The change detection of the edit flow\<close>

lemma hasChanges_iff:
  "hasChanges original updated \<longleftrightarrow>
     strings_Join (Title original) ''|'' \<noteq> strings_Join (Title updated) ''|''
     \<or> strings_Join (Creator original) ''|'' \<noteq> strings_Join (Creator updated) ''|''
     \<or> strings_Join (Keywords original) ''|'' \<noteq> strings_Join (Keywords updated) ''|''
     \<or> strings_Join (Description original) ''|'' \<noteq> strings_Join (Description updated) ''|''"
  by (simp add: hasChanges_def)

lemma hasRealChanges_iff:
  "hasRealChanges original updated \<longleftrightarrow>
     strings_Join (Title original) '','' \<noteq> strings_Join (Title updated) '',''
     \<or> strings_Join (Creator original) '','' \<noteq> strings_Join (Creator updated) '',''
     \<or> strings_Join (Keywords original) '','' \<noteq> strings_Join (Keywords updated) '',''
     \<or> strings_Join (Description original) '','' \<noteq> strings_Join (Description updated) '',''"
  by (simp add: hasRealChanges_def)

lemma editWithTUI_no_change:
  assumes "Open L clk filePath = Some (Return doc)"
    and "RunEditor L run (DublinCore doc) = Inr (updatedDC, False)"
    and "\<not> hasChanges (originalDC_of (DublinCore doc)) updatedDC"
  shows "editWithTUI L clk run filePath outputPath = Some (Return (None, []))"
  using assms by (simp add: editWithTUI_def)

text \<open>
  C10. \<open>hasChanges\<close> and its duplicate \<open>hasRealChanges\<close> compare the title, creator,
  keywords and description, each joined into one string with \<open>|\<close> or with \<open>,\<close>, and
  nothing else: records that differ in subject and category only are reported as
  unchanged, and so are titles \<open>["a|b"]\<close> and \<open>["a", "b"]\<close>. When the form was submitted
  and \<open>hasChanges\<close> reports no change, \<open>editWithTUI\<close> returns without a backup and without
  a save. The witness is a document whose category is \<open>draft\<close>, submitted with its title
  unchanged: the record now has the category \<open>curriculo\<close>, and nothing is written.
\<close>

theorem change_detection_misses_changes:
  "(hasChanges original updated \<longleftrightarrow>
     strings_Join (Title original) ''|'' \<noteq> strings_Join (Title updated) ''|''
     \<or> strings_Join (Creator original) ''|'' \<noteq> strings_Join (Creator updated) ''|''
     \<or> strings_Join (Keywords original) ''|'' \<noteq> strings_Join (Keywords updated) ''|''
     \<or> strings_Join (Description original) ''|'' \<noteq> strings_Join (Description updated) ''|'')
   \<and> (hasRealChanges original updated \<longleftrightarrow>
     strings_Join (Title original) '','' \<noteq> strings_Join (Title updated) '',''
     \<or> strings_Join (Creator original) '','' \<noteq> strings_Join (Creator updated) '',''
     \<or> strings_Join (Keywords original) '','' \<noteq> strings_Join (Keywords updated) '',''
     \<or> strings_Join (Description original) '','' \<noteq> strings_Join (Description updated) '','')
   \<and> \<not> hasChanges (dc\<lparr>Subject := s, Category := c\<rparr>) (dc\<lparr>Subject := s', Category := c'\<rparr>)
   \<and> \<not> hasRealChanges (dc\<lparr>Subject := s, Category := c\<rparr>) (dc\<lparr>Subject := s', Category := c'\<rparr>)
   \<and> \<not> hasChanges (dc\<lparr>Title := [''a|b'']\<rparr>) (dc\<lparr>Title := [''a'', ''b'']\<rparr>)
   \<and> \<not> hasRealChanges (dc\<lparr>Title := [''a,b'']\<rparr>) (dc\<lparr>Title := [''a'', ''b'']\<rparr>)
   \<and> (Open L clk filePath = Some (Return doc)
        \<and> RunEditor L run (DublinCore doc) = Inr (updatedDC, False)
        \<and> \<not> hasChanges (originalDC_of (DublinCore doc)) updatedDC
        \<longrightarrow> editWithTUI L clk run filePath outputPath = Some (Return (None, [])))"
proof (intro conjI impI)
  show "hasChanges original updated \<longleftrightarrow>
     strings_Join (Title original) ''|'' \<noteq> strings_Join (Title updated) ''|''
     \<or> strings_Join (Creator original) ''|'' \<noteq> strings_Join (Creator updated) ''|''
     \<or> strings_Join (Keywords original) ''|'' \<noteq> strings_Join (Keywords updated) ''|''
     \<or> strings_Join (Description original) ''|'' \<noteq> strings_Join (Description updated) ''|''"
    by (rule hasChanges_iff)
  show "hasRealChanges original updated \<longleftrightarrow>
     strings_Join (Title original) '','' \<noteq> strings_Join (Title updated) '',''
     \<or> strings_Join (Creator original) '','' \<noteq> strings_Join (Creator updated) '',''
     \<or> strings_Join (Keywords original) '','' \<noteq> strings_Join (Keywords updated) '',''
     \<or> strings_Join (Description original) '','' \<noteq> strings_Join (Description updated) '',''"
    by (rule hasRealChanges_iff)
  show "\<not> hasChanges (dc\<lparr>Subject := s, Category := c\<rparr>) (dc\<lparr>Subject := s', Category := c'\<rparr>)"
    by (simp add: hasChanges_def)
  show "\<not> hasRealChanges (dc\<lparr>Subject := s, Category := c\<rparr>) (dc\<lparr>Subject := s', Category := c'\<rparr>)"
    by (simp add: hasRealChanges_def)
  show "\<not> hasChanges (dc\<lparr>Title := [''a|b'']\<rparr>) (dc\<lparr>Title := [''a'', ''b'']\<rparr>)"
    by (simp add: hasChanges_def)
  show "\<not> hasRealChanges (dc\<lparr>Title := [''a,b'']\<rparr>) (dc\<lparr>Title := [''a'', ''b'']\<rparr>)"
    by (simp add: hasRealChanges_def)
next
  assume "Open L clk filePath = Some (Return doc)
        \<and> RunEditor L run (DublinCore doc) = Inr (updatedDC, False)
        \<and> \<not> hasChanges (originalDC_of (DublinCore doc)) updatedDC"
  then show "editWithTUI L clk run filePath outputPath = Some (Return (None, []))"
    by (simp add: editWithTUI_no_change)
qed

lemma Open_draft: "Open example_lib example_clock ''draft.docx'' = Some (Return draft_doc)"
proof -
  have 1: "os_ReadFile example_lib ''draft.docx'' = Inr ''PK:draft''"
    by (simp add: lib_defs example_files_def)
  have 2: "zip_NewReader example_lib ''PK:draft'' = Inr (archive_around core_draft)"
    by (simp add: lib_defs example_archives_def)
  have 3: "findFile (archive_around core_draft) corePropertiesPath
             = Inr (member ''docProps/core.xml'' core_draft)"
    by (simp add: archive_around_def member_def corePropertiesPath_def)
  have 4: "readZipFile (member ''docProps/core.xml'' core_draft) = Inr core_draft"
    by (simp add: readZipFile_def member_def)
  have "xml_Decode example_lib core_draft
     = Inr (root_plain, [Element \<lparr>Space = [], Local = ''title''\<rparr> [CharData ''Old''],
          Element \<lparr>Space = [], Local = ''category''\<rparr> [CharData ''draft'']])"
    by (simp add: lib_defs doc_defs)
  then have 5: "extractDublinCore example_lib (tick example_clock) core_draft
             = Some (Return ((New (tick example_clock))\<lparr>Title := [''Old''], Category := [''draft'']\<rparr>))"
    by (simp add: extractDublinCore_def parseCoreXML_def Unmarshal_coreProps_def map_coreProps_def
      New_def zero_DublinCore_def Let_def field_values_def tag_local_def chardata_def root_plain_def)
  show ?thesis
    using 1 2 3 4 5 by (simp add: Open_def draft_doc_def)
qed

lemma RunEditor_draft:
  "RunEditor example_lib submit_unchanged (DublinCore draft_doc)
     = Inr ((DublinCore draft_doc)\<lparr>Category := [''curriculo'']\<rparr>, False)"
  by (simp add: RunEditor_def submit_unchanged_def updateDublinCoreFromInputs_def
      lib_defs ascii_TrimSpace_def ascii_space_def placeholder_title_def
      SetTitle_def SetCategory_def draft_doc_def New_def zero_DublinCore_def Let_def)

theorem change_detection_misses_changes_witness:
  "Open example_lib example_clock ''draft.docx'' = Some (Return draft_doc)
   \<and> RunEditor example_lib submit_unchanged (DublinCore draft_doc)
       = Inr ((DublinCore draft_doc)\<lparr>Category := [''curriculo'']\<rparr>, False)
   \<and> Category (DublinCore draft_doc) = [''draft'']
   \<and> (DublinCore draft_doc)\<lparr>Category := [''curriculo'']\<rparr> \<noteq> DublinCore draft_doc
   \<and> \<not> hasChanges (originalDC_of (DublinCore draft_doc)) ((DublinCore draft_doc)\<lparr>Category := [''curriculo'']\<rparr>)
   \<and> editWithTUI example_lib example_clock submit_unchanged ''draft.docx'' [] = Some (Return (None, []))"
proof -
  have 3: "\<not> hasChanges (originalDC_of (DublinCore draft_doc))
              ((DublinCore draft_doc)\<lparr>Category := [''curriculo'']\<rparr>)"
    by (simp add: hasChanges_def originalDC_of_def)
  have 4: "Category (DublinCore draft_doc) = [''draft'']"
    by (simp add: draft_doc_def)
  have 5: "(DublinCore draft_doc)\<lparr>Category := [''curriculo'']\<rparr> \<noteq> DublinCore draft_doc"
  proof
    assume "(DublinCore draft_doc)\<lparr>Category := [''curriculo'']\<rparr> = DublinCore draft_doc"
    then have "Category ((DublinCore draft_doc)\<lparr>Category := [''curriculo'']\<rparr>)
                 = Category (DublinCore draft_doc)"
      by (rule arg_cong)
    with 4 show False by simp
  qed
  note flow = change_detection_misses_changes [of _ _ _ _ _ _ _ example_lib example_clock
      "''draft.docx''" draft_doc submit_unchanged
      "(DublinCore draft_doc)\<lparr>Category := [''curriculo'']\<rparr>" "[]",
      THEN conjunct2, THEN conjunct2, THEN conjunct2, THEN conjunct2, THEN conjunct2,
      THEN conjunct2, THEN mp]
  have "editWithTUI example_lib example_clock submit_unchanged ''draft.docx'' [] = Some (Return (None, []))"
    by (rule flow) (intro conjI Open_draft RunEditor_draft 3)
  with Open_draft RunEditor_draft 3 4 5 show ?thesis by simp
qed

section \<open>The example scenario\<close>

text \<open>An occurrence of a substring is found by \<open>strings.Index\<close>.\<close>

lemma strings_Index_found: "strings_Index (a @ substr @ b) substr \<ge> 0"
proof (induction a)
  case Nil
  show ?case
  proof (cases "substr @ b")
    case Nil
    then show ?thesis by simp
  next
    case (Cons c s)
    have "take (length substr) (substr @ b) = substr" by simp
    then have "take (length substr) (c # s) = substr" by (simp only: Cons)
    with Cons show ?thesis by simp
  qed
next
  case (Cons c a)
  then show ?case by (simp add: Let_def)
qed

lemma strings_Contains_intro: "s = a @ substr @ b \<Longrightarrow> strings_Contains s substr"
  by (simp add: strings_Contains_def strings_Index_found)

text \<open>
  \<open>Save\<close> returns no error when the source archive is read again, every member other than
  the metadata entry can be read, and no operation on the created file fails.
\<close>

lemma next_fault_free:
  "fault_free (faults w) \<Longrightarrow>
   \<exists>w'. next_fault w = (None, w') \<and> entries w' = entries w \<and> fault_free (faults w')"
  by (cases "faults w") (auto simp: next_fault_def fault_free_def)

lemma zw_Create_free:
  "fault_free (faults w) \<Longrightarrow> \<exists>w'. zw_Create w name = (None, w') \<and> fault_free (faults w')"
  using next_fault_free [of w] by (auto simp: zw_Create_def)

lemma zw_Write_free:
  "fault_free (faults w) \<Longrightarrow> \<exists>w'. zw_Write w p = (None, w') \<and> fault_free (faults w')"
  using next_fault_free [of w] by (auto simp: zw_Write_def split: list.splits)

lemma copyZipFile_free:
  assumes "fault_free (faults w)" and "readable f"
  shows "\<exists>w'. copyZipFile w f = (None, w') \<and> fault_free (faults w')"
proof -
  from assms(2) obtain content where o: "Opened f = Inr (content, None)"
    by (auto simp: readable_def split: sum.splits prod.splits option.splits)
  from zw_Create_free [OF assms(1)] obtain w1
    where c: "zw_Create w (Name f) = (None, w1)" and f1: "fault_free (faults w1)"
    by blast
  from zw_Write_free [OF f1] obtain w2
    where wr: "zw_Write w1 content = (None, w2)" and f2: "fault_free (faults w2)"
    by blast
  show ?thesis
    using o c f1 wr f2 by (simp add: copyZipFile_def io_Copy_def)
qed

lemma writeCoreProperties_free:
  assumes "fault_free (faults w)"
  shows "\<exists>w'. writeCoreProperties L d w = (None, w') \<and> fault_free (faults w')"
proof -
  obtain data where x: "ToXML L (coreProps_of (DublinCore d)) = Inr data"
    by (simp add: ToXML_def MarshalIndent_def Let_def)
  from zw_Create_free [OF assms] obtain w1
    where c: "zw_Create w corePropertiesPath = (None, w1)" and f1: "fault_free (faults w1)"
    by blast
  from zw_Write_free [OF f1] obtain w2
    where wr: "zw_Write w1 data = (None, w2)" and f2: "fault_free (faults w2)"
    by blast
  show ?thesis
    using x c wr f2 by (simp add: writeCoreProperties_def)
qed

lemma Save_loop_free:
  "fault_free (faults w) \<Longrightarrow> list_all (\<lambda>f. Name f = corePropertiesPath \<or> readable f) files
   \<Longrightarrow> fst (Save_loop L d files w) = None"
proof (induction files arbitrary: w)
  case Nil
  then show ?case by simp
next
  case (Cons f fs)
  show ?case
  proof (cases "Name f = corePropertiesPath")
    case True
    from writeCoreProperties_free [OF Cons.prems(1)] obtain w1
      where "writeCoreProperties L d w = (None, w1)" "fault_free (faults w1)"
      by blast
    with True Cons show ?thesis by simp
  next
    case False
    with Cons.prems(2) have "readable f" by simp
    from copyZipFile_free [OF Cons.prems(1) this] obtain w1
      where "copyZipFile w f = (None, w1)" "fault_free (faults w1)"
      by blast
    with False Cons show ?thesis by simp
  qed
qed

lemma Save_succeeds:
  assumes "zip_NewReader L (FileData d) = Inr files"
    and "os_Create L (if outputPath = [] then FilePath d else outputPath) = Inr outFile"
    and "fault_free outFile"
    and "list_all (\<lambda>f. Name f = corePropertiesPath \<or> readable f) files"
  shows "fst (Save L d outputPath) = None"
proof -
  have "fst (Save_loop L d files (zip_NewWriter outFile)) = None"
    using assms(3,4) by (intro Save_loop_free) (simp_all add: zip_NewWriter_def)
  with assms(1,2) show ?thesis
    by (auto simp: Save_def Let_def split: prod.splits)
qed

lemma decode_example_entry:
  assumes "xml_Decode L core_old
             = Inr (root_plain, [Element \<lparr>Space = ''dc'', Local = ''title''\<rparr> [CharData ''Old'']])"
  shows "extractDublinCore L clk core_old = Some (Return ((New clk)\<lparr>Title := [''Old'']\<rparr>))"
  using assms
  by (simp add: extractDublinCore_def parseCoreXML_def Unmarshal_coreProps_def map_coreProps_def
      New_def zero_DublinCore_def Let_def field_values_def tag_local_def chardata_def root_plain_def)

lemma example_scenario_text:
  assumes "xml_EscapeText L ''New Role'' = ''New Role''"
    and "xml_EscapeText L ''curriculo'' = ''curriculo''"
    and "ToXML L (coreProps_of (SetCategory (SetTitle ''New Role'' ((New clk)\<lparr>Title := [''Old'']\<rparr>)))) = Inr data"
  shows "strings_Contains data ''<dc:title>New Role</dc:title>''
         \<and> strings_Contains data ''<cp:category>curriculo</cp:category>''"
proof -
  let ?open = "xml_header @ ''<cp:coreProperties''
              @ marshal_attr L ''xmlns:cp'' ''http://schemas.openxmlformats.org/package/2006/metadata/core-properties''
              @ marshal_attr L ''xmlns:dc'' ''http://purl.org/dc/elements/1.1/''
              @ marshal_attr L ''xmlns:dcterms'' ''http://purl.org/dc/terms/''
              @ marshal_attr L ''xmlns:xsi'' ''http://www.w3.org/2001/XMLSchema-instance''
              @ ''>''"
  have data: "data = ?open @ newline @ ''  <dc:title>New Role</dc:title>''
                 @ newline @ ''  <cp:category>curriculo</cp:category>'' @ newline @ ''</cp:coreProperties>''"
    using assms
    by (simp add: ToXML_def MarshalIndent_def marshal_elems_def coreProps_of_def SetCategory_def
        SetTitle_def New_def zero_DublinCore_def Let_def newline_def)
  have "data = (?open @ newline @ ''  '') @ ''<dc:title>New Role</dc:title>''
                 @ (newline @ ''  <cp:category>curriculo</cp:category>'' @ newline @ ''</cp:coreProperties>'')"
    by (simp add: data)
  then have 1: "strings_Contains data ''<dc:title>New Role</dc:title>''"
    by (rule strings_Contains_intro)
  have "data = (?open @ newline @ ''  <dc:title>New Role</dc:title>'' @ newline @ ''  '')
                 @ ''<cp:category>curriculo</cp:category>'' @ (newline @ ''</cp:coreProperties>'')"
    by (simp add: data)
  then have 2: "strings_Contains data ''<cp:category>curriculo</cp:category>''"
    by (rule strings_Contains_intro)
  from 1 2 show ?thesis ..
qed

text \<open>
  C2. An archive whose \<open>docProps/core.xml\<close> is
  \<open><coreProperties><dc:title>Old</dc:title></coreProperties>\<close>, read by the decoder as a
  \<open>coreProperties\<close> root with one child \<open>title\<close> under the undeclared prefix \<open>dc\<close>: \<open>Open\<close>
  returns a container whose title is \<open>["Old"]\<close>. After \<open>SetTitle("New Role")\<close> and
  \<open>SetCategory()\<close>, every \<open>Save\<close> that returns no error has written the members of the
  source under their names and in their order, the metadata entry containing
  \<open><dc:title>New Role</dc:title>\<close> and \<open><cp:category>curriculo</cp:category>\<close> (the escaping
  leaves the two values as they are) and every other member its own bytes; and \<open>Save\<close>
  does return no error when the other members can be read and the created file takes
  every write.
\<close>

theorem example_scenario:
  assumes "os_ReadFile L filePath = Inr fileData"
    and "zip_NewReader L fileData = Inr files"
    and "findFile files corePropertiesPath = Inr coreFile"
    and "Opened coreFile = Inr (core_old, None)"
    and "xml_Decode L core_old
           = Inr (root_plain, [Element \<lparr>Space = ''dc'', Local = ''title''\<rparr> [CharData ''Old'']])"
    and "xml_EscapeText L ''New Role'' = ''New Role''"
    and "xml_EscapeText L ''curriculo'' = ''curriculo''"
  shows "\<exists>d. Open L clk filePath = Some (Return d)
           \<and> Title (DublinCore d) = [''Old'']
           \<and> (\<forall>out. Save L (d\<lparr>DublinCore := SetCategory (SetTitle ''New Role'' (DublinCore d))\<rparr>)
                        outputPath = (None, out)
                 \<longrightarrow> (\<exists>w. out = Some (if outputPath = [] then filePath else outputPath, w)
                        \<and> map fst (entries w) = map Name files
                        \<and> (\<forall>i < length files.
                              if Name (files ! i) = corePropertiesPath
                              then strings_Contains (snd (entries w ! i)) ''<dc:title>New Role</dc:title>''
                                 \<and> strings_Contains (snd (entries w ! i))
                                       ''<cp:category>curriculo</cp:category>''
                              else Opened (files ! i) = Inr (snd (entries w ! i), None))))
           \<and> (\<forall>outFile. os_Create L (if outputPath = [] then filePath else outputPath) = Inr outFile
                    \<and> fault_free outFile
                    \<and> list_all (\<lambda>f. Name f = corePropertiesPath \<or> readable f) files
                 \<longrightarrow> fst (Save L (d\<lparr>DublinCore := SetCategory (SetTitle ''New Role'' (DublinCore d))\<rparr>)
                            outputPath) = None)"
proof -
  let ?dc = "(New (tick clk))\<lparr>Title := [''Old'']\<rparr>"
  let ?d = "\<lparr>FilePath = filePath, DublinCore = ?dc, FileData = fileData\<rparr>"
  let ?e = "?d\<lparr>DublinCore := SetCategory (SetTitle ''New Role'' (DublinCore ?d))\<rparr>"
  have core: "readZipFile coreFile = Inr core_old"
    using assms(4) by (simp add: readZipFile_def)
  have "Open L clk filePath = Some (Return ?d)"
    using assms(1,2,3) core decode_example_entry [OF assms(5), of "tick clk"]
    by (simp add: Open_def)
  moreover have "Title (DublinCore ?d) = [''Old'']"
    by simp
  moreover have "\<exists>w. out = Some (if outputPath = [] then filePath else outputPath, w)
                    \<and> map fst (entries w) = map Name files
                    \<and> (\<forall>i < length files.
                          if Name (files ! i) = corePropertiesPath
                          then strings_Contains (snd (entries w ! i)) ''<dc:title>New Role</dc:title>''
                             \<and> strings_Contains (snd (entries w ! i))
                                   ''<cp:category>curriculo</cp:category>''
                          else Opened (files ! i) = Inr (snd (entries w ! i), None))"
    if save: "Save L ?e outputPath = (None, out)" for out
  proof -
    have zip: "zip_NewReader L (FileData ?e) = Inr files"
      using assms(2) by simp
    from Save_ok [OF zip save] obtain w
      where out: "out = Some (if outputPath = [] then filePath else outputPath, w)"
        and all: "list_all2 (written_for L ?e) files (entries w)"
      by auto
    have names: "map fst (entries w) = map Name files"
      using all by (induction rule: list_all2_induct) (simp_all add: written_for_def)
    have "if Name (files ! i) = corePropertiesPath
          then strings_Contains (snd (entries w ! i)) ''<dc:title>New Role</dc:title>''
             \<and> strings_Contains (snd (entries w ! i)) ''<cp:category>curriculo</cp:category>''
          else Opened (files ! i) = Inr (snd (entries w ! i), None)"
      if i: "i < length files" for i
    proof (cases "Name (files ! i) = corePropertiesPath")
      case True
      with list_all2_nthD [OF all i]
      have "ToXML L (coreProps_of (SetCategory (SetTitle ''New Role'' ?dc))) = Inr (snd (entries w ! i))"
        by (simp add: written_for_def)
      from example_scenario_text [OF assms(6,7) this] True show ?thesis
        by simp
    next
      case False
      with list_all2_nthD [OF all i] show ?thesis
        by (simp add: written_for_def)
    qed
    with out names show ?thesis by blast
  qed
  moreover have "fst (Save L ?e outputPath) = None"
    if "os_Create L (if outputPath = [] then filePath else outputPath) = Inr outFile
        \<and> fault_free outFile
        \<and> list_all (\<lambda>f. Name f = corePropertiesPath \<or> readable f) files" for outFile
  proof (rule Save_succeeds)
    show "zip_NewReader L (FileData ?e) = Inr files"
      using assms(2) by simp
    show "os_Create L (if outputPath = [] then FilePath ?e else outputPath) = Inr outFile"
      using that by (auto split: if_splits)
    show "fault_free outFile" using that by simp
    show "list_all (\<lambda>f. Name f = corePropertiesPath \<or> readable f) files" using that by simp
  qed
  ultimately show ?thesis
    by (intro exI [of _ ?d] conjI allI impI) blast+
qed

theorem example_scenario_witness:
  "os_ReadFile example_lib ''old.docx'' = Inr ''PK:old''
   \<and> zip_NewReader example_lib ''PK:old'' = Inr (archive_around core_old)
   \<and> findFile (archive_around core_old) corePropertiesPath = Inr (member ''docProps/core.xml'' core_old)
   \<and> Opened (member ''docProps/core.xml'' core_old) = Inr (core_old, None)
   \<and> xml_Decode example_lib core_old
         = Inr (root_plain, [Element \<lparr>Space = ''dc'', Local = ''title''\<rparr> [CharData ''Old'']])
   \<and> xml_EscapeText example_lib ''New Role'' = ''New Role''
   \<and> xml_EscapeText example_lib ''curriculo'' = ''curriculo''
   \<and> (\<exists>d w. Open example_lib example_clock ''old.docx'' = Some (Return d)
          \<and> Title (DublinCore d) = [''Old'']
          \<and> Save example_lib (d\<lparr>DublinCore := SetCategory (SetTitle ''New Role'' (DublinCore d))\<rparr>)
                ''out.docx'' = (None, Some (''out.docx'', w))
          \<and> map fst (entries w) = [''[Content_Types].xml'', ''docProps/core.xml'', ''word/document.xml'']
          \<and> snd (entries w ! 0) = ''<Types/>''
          \<and> strings_Contains (snd (entries w ! 1)) ''<dc:title>New Role</dc:title>''
          \<and> strings_Contains (snd (entries w ! 1)) ''<cp:category>curriculo</cp:category>''
          \<and> snd (entries w ! 2) = ''<w:document/>'')"
proof -
  let ?files = "archive_around core_old"
  have 1: "os_ReadFile example_lib ''old.docx'' = Inr ''PK:old''"
    by (simp add: lib_defs example_files_def)
  have 2: "zip_NewReader example_lib ''PK:old'' = Inr ?files"
    by (simp add: lib_defs example_archives_def)
  have 3: "findFile ?files corePropertiesPath = Inr (member ''docProps/core.xml'' core_old)"
    by (simp add: archive_around_def member_def corePropertiesPath_def)
  have 4: "Opened (member ''docProps/core.xml'' core_old) = Inr (core_old, None)"
    by (simp add: member_def)
  have 5: "xml_Decode example_lib core_old
         = Inr (root_plain, [Element \<lparr>Space = ''dc'', Local = ''title''\<rparr> [CharData ''Old'']])"
    by (simp add: lib_defs doc_defs)
  have 6: "xml_EscapeText example_lib ''New Role'' = ''New Role''"
    by (simp add: lib_defs ascii_EscapeText_def ascii_escape_def)
  have 7: "xml_EscapeText example_lib ''curriculo'' = ''curriculo''"
    by (simp add: lib_defs ascii_EscapeText_def ascii_escape_def)
  from example_scenario [OF 1 2 3 4 5 6 7, of example_clock "''out.docx''"] obtain d
    where d: "Open example_lib example_clock ''old.docx'' = Some (Return d)"
      and title: "Title (DublinCore d) = [''Old'']"
      and saved: "\<And>out. Save example_lib (d\<lparr>DublinCore := SetCategory (SetTitle ''New Role'' (DublinCore d))\<rparr>)
                        ''out.docx'' = (None, out)
                 \<Longrightarrow> \<exists>w. out = Some (''out.docx'', w)
                        \<and> map fst (entries w) = map Name ?files
                        \<and> (\<forall>i < length ?files.
                              if Name (?files ! i) = corePropertiesPath
                              then strings_Contains (snd (entries w ! i)) ''<dc:title>New Role</dc:title>''
                                 \<and> strings_Contains (snd (entries w ! i))
                                       ''<cp:category>curriculo</cp:category>''
                              else Opened (?files ! i) = Inr (snd (entries w ! i), None))"
      and succeeds: "\<And>outFile. os_Create example_lib ''out.docx'' = Inr outFile
                    \<and> fault_free outFile
                    \<and> list_all (\<lambda>f. Name f = corePropertiesPath \<or> readable f) ?files
                 \<Longrightarrow> fst (Save example_lib (d\<lparr>DublinCore := SetCategory (SetTitle ''New Role'' (DublinCore d))\<rparr>)
                            ''out.docx'') = None"
    by auto
  let ?e = "d\<lparr>DublinCore := SetCategory (SetTitle ''New Role'' (DublinCore d))\<rparr>"
  have "os_Create example_lib ''out.docx'' = Inr []
        \<and> fault_free []
        \<and> list_all (\<lambda>f. Name f = corePropertiesPath \<or> readable f) ?files"
    by (simp add: lib_defs fault_free_def archive_around_def member_def readable_def)
  then have "fst (Save example_lib ?e ''out.docx'') = None"
    by (rule succeeds)
  then have "Save example_lib ?e ''out.docx'' = (None, snd (Save example_lib ?e ''out.docx''))"
    by (metis prod.collapse)
  from saved [OF this] obtain w
    where w: "snd (Save example_lib ?e ''out.docx'') = Some (''out.docx'', w)"
      and names: "map fst (entries w) = map Name ?files"
      and each: "\<forall>i < length ?files.
                              if Name (?files ! i) = corePropertiesPath
                              then strings_Contains (snd (entries w ! i)) ''<dc:title>New Role</dc:title>''
                                 \<and> strings_Contains (snd (entries w ! i))
                                       ''<cp:category>curriculo</cp:category>''
                              else Opened (?files ! i) = Inr (snd (entries w ! i), None)"
    by blast
  have save: "Save example_lib ?e ''out.docx'' = (None, Some (''out.docx'', w))"
    using \<open>fst (Save example_lib ?e ''out.docx'') = None\<close> w by (metis prod.collapse)
  from each [rule_format, of 0] have e0: "snd (entries w ! 0) = ''<Types/>''"
    by (simp add: archive_around_def member_def corePropertiesPath_def)
  from each [rule_format, of 1]
  have e1: "strings_Contains (snd (entries w ! 1)) ''<dc:title>New Role</dc:title>''
            \<and> strings_Contains (snd (entries w ! 1)) ''<cp:category>curriculo</cp:category>''"
    by (simp add: archive_around_def member_def corePropertiesPath_def)
  from each [rule_format, of 2] have e2: "snd (entries w ! 2) = ''<w:document/>''"
    by (simp add: archive_around_def member_def corePropertiesPath_def)
  have n: "map fst (entries w) = [''[Content_Types].xml'', ''docProps/core.xml'', ''word/document.xml'']"
    using names by (simp add: archive_around_def member_def)
  have "\<exists>d w. Open example_lib example_clock ''old.docx'' = Some (Return d)
          \<and> Title (DublinCore d) = [''Old'']
          \<and> Save example_lib (d\<lparr>DublinCore := SetCategory (SetTitle ''New Role'' (DublinCore d))\<rparr>)
                ''out.docx'' = (None, Some (''out.docx'', w))
          \<and> map fst (entries w) = [''[Content_Types].xml'', ''docProps/core.xml'', ''word/document.xml'']
          \<and> snd (entries w ! 0) = ''<Types/>''
          \<and> strings_Contains (snd (entries w ! 1)) ''<dc:title>New Role</dc:title>''
          \<and> strings_Contains (snd (entries w ! 1)) ''<cp:category>curriculo</cp:category>''
          \<and> snd (entries w ! 2) = ''<w:document/>''"
    by (intro exI [of _ d] exI [of _ w] conjI)
      (rule d title save n e0 e2 e1 [THEN conjunct1] e1 [THEN conjunct2])+
  with 1 2 3 4 5 6 7 show ?thesis
    by (intro conjI)
qed

section \<open>Serializing a decoded record and decoding it again\<close>

lemma field_values_append:
  "field_values m (a @ b) = field_values m a @ field_values m b"
  by (simp add: field_values_def)

lemma field_values_CharData: "field_values m [CharData s] = []"
  by (simp add: field_values_def)

lemma field_values_Nil: "field_values m [] = []"
  by (simp add: field_values_def)

lemma field_values_serialized_elems:
  "field_values m (serialized_elems ns name vs)
     = (if m \<lparr>Space = ns, Local = name\<rparr> then filter (\<lambda>v. v \<noteq> []) vs else [])"
  by (induction vs) (simp_all add: field_values_def serialized_elems_def chardata_def)

lemma field_values_serialized_tree:
  "field_values (tag_local name) (snd (serialized_tree cp))
     = (if name = ''title'' then filter (\<lambda>v. v \<noteq> []) (Title_core cp) else [])
     @ (if name = ''creator'' then filter (\<lambda>v. v \<noteq> []) (Creator_core cp) else [])
     @ (if name = ''subject'' then filter (\<lambda>v. v \<noteq> []) (Subject_core cp) else [])
     @ (if name = ''description'' then filter (\<lambda>v. v \<noteq> []) (Description_core cp) else [])
     @ (if name = ''keywords'' then filter (\<lambda>v. v \<noteq> []) (Keywords_core cp) else [])
     @ (if name = ''category'' then filter (\<lambda>v. v \<noteq> []) (Category_core cp) else [])"
  by (simp add: serialized_tree_def Let_def field_values_append field_values_serialized_elems
      field_values_CharData field_values_Nil tag_local_def eq_commute [of name])

lemma filter_nonempty: "[] \<notin> set vs \<Longrightarrow> filter (\<lambda>v. v \<noteq> []) vs = vs"
  by (induction vs) auto

lemma switch_tag_keeps:
  "vals \<noteq> [] \<Longrightarrow>
   Format (switch_tag tag vals dc) = Format dc
   \<and> (Category dc \<noteq> [] \<longrightarrow> Category (switch_tag tag vals dc) \<noteq> [])"
  by (simp add: switch_tag_def)

lemma tags_loop_keeps:
  "tags_loop L s tags dc = Some (Return dc') \<Longrightarrow>
   Format dc' = Format dc \<and> (Category dc \<noteq> [] \<longrightarrow> Category dc' \<noteq> [])"
proof (induction tags arbitrary: dc)
  case Nil
  then show ?case by simp
next
  case (Cons tag tags)
  from Cons.prems obtain vals where
    v: "extractField L s tag = Some (Return vals)"
    and rest: "tags_loop L s tags (if length vals > 0 then switch_tag tag vals dc else dc)
                 = Some (Return dc')"
    by (auto split: option.splits outcome.splits)
  from Cons.IH [OF rest] switch_tag_keeps [of vals tag dc] show ?case
    by (cases "vals = []") auto
qed

lemma parseCoreXML_keeps:
  assumes "parseCoreXML L clk data = Some (Return x)"
  shows "Format x = [docx_mime] \<and> Category x \<noteq> []"
proof (cases "Unmarshal_coreProps L data")
  case (Inl e)
  with assms show ?thesis by (simp add: parseCoreXML_def)
next
  case (Inr p)
  let ?dc = "map_coreProps p (New clk)"
  have strict: "Format ?dc = [docx_mime] \<and> Category ?dc \<noteq> []"
    by (simp add: map_coreProps_def New_def Let_def)
  show ?thesis
  proof (cases "length (Title ?dc) > 0 \<or> length (Creator ?dc) > 0
              \<or> length (Keywords ?dc) > 0 \<or> length (Description ?dc) > 0")
    case True
    with assms Inr have "x = ?dc"
      by (simp add: parseCoreXML_def Let_def)
    with strict show ?thesis by simp
  next
    case False
    with assms Inr have "parseCoreXMLAlternative L (tick clk) data = Some (Return x)"
      by (simp add: parseCoreXML_def Let_def)
    then have "tags_loop L data possibleTags (New (tick clk)) = Some (Return x)"
      by (simp add: parseCoreXMLAlternative_def)
    from tags_loop_keeps [OF this] show ?thesis
      by (simp add: New_def)
  qed
qed

lemma extractDublinCore_coreProperties:
  assumes "xml_Decode L data = Inr (root, content)"
    and "Local root = ''coreProperties''"
    and "extractDublinCore L clk data = Some (Return x)"
  shows "parseCoreXML L clk data = Some (Return x)
         \<and> (Title x \<noteq> [] \<or> Creator x \<noteq> [] \<or> Keywords x \<noteq> [])"
proof -
  have raw: "decode_rawDC L data
               = Some (Failure (Error ''expected element type <dc> but have <coreProperties>''))"
    using assms(1,2) by (simp add: decode_rawDC_def Unmarshal_DublinCore_def)
  with assms(3) show ?thesis
    by (auto simp: extractDublinCore_def split: option.splits outcome.splits if_splits)
qed

text \<open>
  C3, as amended. Let \<open>x\<close> be decoded from an entry with a \<open>coreProperties\<close> root, let none
  of the strings in its title, creator, subject, description, keywords and category be
  empty, and let the decoder read in the serialized \<open>x\<close> the elements that were written.
  Then decoding the serialized \<open>x\<close> succeeds and gives the same six sequences and the same
  format. The date is not serialized: it is the clock reading of the second decode.
\<close>

theorem roundtrip_of_serialized_fields:
  assumes "xml_Decode L data = Inr (root, content)"
    and "Local root = ''coreProperties''"
    and "extractDublinCore L clk data = Some (Return x)"
    and "ToXML L (coreProps_of x) = Inr text"
    and "xml_Decode L text = Inr (serialized_tree (coreProps_of x))"
    and "[] \<notin> set (Title x @ Creator x @ Subject x @ Description x @ Keywords x @ Category x)"
  shows "\<exists>y. extractDublinCore L clk' text = Some (Return y)
           \<and> Title y = Title x \<and> Creator y = Creator x \<and> Subject y = Subject x
           \<and> Description y = Description x \<and> Keywords y = Keywords x
           \<and> Category y = Category x \<and> Format y = Format x \<and> Date y = [clk' 0]"
proof -
  from extractDublinCore_coreProperties [OF assms(1,2,3)]
  have parsed: "parseCoreXML L clk data = Some (Return x)"
    and usable: "Title x \<noteq> [] \<or> Creator x \<noteq> [] \<or> Keywords x \<noteq> []"
    by simp_all
  from parseCoreXML_keeps [OF parsed]
  have format: "Format x = [docx_mime]" and category: "Category x \<noteq> []"
    by simp_all
  let ?p = "\<lparr>XMLName_props = fst (serialized_tree (coreProps_of x)),
             Title_props = Title x, Creator_props = Creator x, Subject_props = Subject x,
             Description_props = Description x, Keywords_props = Keywords x,
             Category_props = Category x\<rparr>"
  obtain r c where tree: "serialized_tree (coreProps_of x) = (r, c)"
    by (cases "serialized_tree (coreProps_of x)")
  have r: "Local r = ''coreProperties''"
    using tree by (auto simp: serialized_tree_def Let_def)
  have vals: "field_values (tag_local ''title'') c = Title x"
    "field_values (tag_local ''creator'') c = Creator x"
    "field_values (tag_local ''subject'') c = Subject x"
    "field_values (tag_local ''description'') c = Description x"
    "field_values (tag_local ''keywords'') c = Keywords x"
    "field_values (tag_local ''category'') c = Category x"
    using field_values_serialized_tree [of _ "coreProps_of x"] assms(6) tree
    by (simp_all add: filter_nonempty coreProps_of_def)
  have unmarshal: "Unmarshal_coreProps L text = Inr ?p"
    using assms(5) tree r vals by (simp add: Unmarshal_coreProps_def)
  let ?y = "map_coreProps ?p (New clk')"
  have fields: "Title ?y = Title x" "Creator ?y = Creator x" "Subject ?y = Subject x"
    "Description ?y = Description x" "Keywords ?y = Keywords x" "Category ?y = Category x"
    "Format ?y = Format x" "Date ?y = [clk' 0]"
    using category format by (simp_all add: map_coreProps_def New_def zero_DublinCore_def Let_def)
  have "parseCoreXML L clk' text = Some (Return ?y)"
    using unmarshal usable fields(1,2,5) by (auto simp: parseCoreXML_def Let_def)
  then have "extractDublinCore L clk' text = Some (Return ?y)"
    using usable fields(1,2,5) by (auto simp: extractDublinCore_def)
  with fields show ?thesis by blast
qed

lemmas marshal_defs = ToXML_def MarshalIndent_def marshal_attr_def marshal_elems_def
  coreProps_of_def ascii_EscapeText_def ascii_escape_def Let_def

lemmas unmarshal_defs = extractDublinCore_def parseCoreXML_def Unmarshal_coreProps_def
  map_coreProps_def field_values_def tag_local_def chardata_def Let_def

theorem roundtrip_of_serialized_fields_witness:
  "xml_Decode example_lib core_old
     = Inr (root_plain, [Element \<lparr>Space = ''dc'', Local = ''title''\<rparr> [CharData ''Old'']])
   \<and> Local root_plain = ''coreProperties''
   \<and> extractDublinCore example_lib example_clock core_old
       = Some (Return ((New example_clock)\<lparr>Title := [''Old'']\<rparr>))
   \<and> ToXML example_lib (coreProps_of ((New example_clock)\<lparr>Title := [''Old'']\<rparr>)) = Inr serialized_old
   \<and> xml_Decode example_lib serialized_old
       = Inr (serialized_tree (coreProps_of ((New example_clock)\<lparr>Title := [''Old'']\<rparr>)))
   \<and> [] \<notin> set (Title ((New example_clock)\<lparr>Title := [''Old'']\<rparr>)
                  @ Category ((New example_clock)\<lparr>Title := [''Old'']\<rparr>))
   \<and> (\<exists>y. extractDublinCore example_lib later_clock serialized_old = Some (Return y)
          \<and> Title y = [''Old''] \<and> Creator y = [] \<and> Category y = [''curriculo'']
          \<and> Format y = [docx_mime] \<and> Date y = [''2024-05-01T10:00:07Z''])"
proof -
  let ?x = "(New example_clock)\<lparr>Title := [''Old'']\<rparr>"
  have 1: "xml_Decode example_lib core_old
     = Inr (root_plain, [Element \<lparr>Space = ''dc'', Local = ''title''\<rparr> [CharData ''Old'']])"
    by (simp add: lib_defs doc_defs)
  have 2: "Local root_plain = ''coreProperties''"
    by (simp add: root_plain_def)
  have 3: "extractDublinCore example_lib example_clock core_old = Some (Return ?x)"
    using 1 by (rule decode_example_entry)
  have 4: "ToXML example_lib (coreProps_of ?x) = Inr serialized_old"
    by (simp add: marshal_defs lib_defs New_def zero_DublinCore_def
        serialized_old_def root_start_tag_def)
  have tree: "serialized_tree (coreProps_of ?x)
     = (root_cp, [CharData (newline @ ''  ''), Element \<lparr>Space = dc_ns, Local = ''title''\<rparr> [CharData ''Old''],
          CharData (newline @ ''  ''),
          Element \<lparr>Space = cp_ns, Local = ''category''\<rparr> [CharData ''curriculo''],
          CharData newline])"
    by (simp add: serialized_tree_def serialized_elems_def coreProps_of_def
        New_def zero_DublinCore_def root_cp_def)
  have 5: "xml_Decode example_lib serialized_old = Inr (serialized_tree (coreProps_of ?x))"
    unfolding tree by (simp add: lib_defs doc_defs dquote_def newline_def)
  have 6: "[] \<notin> set (Title ?x @ Creator ?x @ Subject ?x @ Description ?x @ Keywords ?x @ Category ?x)"
    by (simp add: New_def zero_DublinCore_def)
  from roundtrip_of_serialized_fields [OF 1 2 3 4 5 6, of later_clock] obtain y
    where y: "extractDublinCore example_lib later_clock serialized_old = Some (Return y)"
      "Title y = Title ?x" "Creator y = Creator ?x" "Category y = Category ?x"
      "Format y = Format ?x" "Date y = [later_clock 0]"
    by blast
  have "\<exists>y. extractDublinCore example_lib later_clock serialized_old = Some (Return y)
          \<and> Title y = [''Old''] \<and> Creator y = [] \<and> Category y = [''curriculo'']
          \<and> Format y = [docx_mime] \<and> Date y = [''2024-05-01T10:00:07Z'']"
    using y by (intro exI [of _ y]) (simp add: New_def zero_DublinCore_def later_clock_def)
  moreover have "[] \<notin> set (Title ?x @ Category ?x)"
    by (simp add: New_def zero_DublinCore_def)
  ultimately show ?thesis using 1 2 3 4 5 by (intro conjI)
qed

text \<open>
  C3 as stated fails on the entry of \<open>creators.docx\<close>, decoded by one clock and decoded
  again, from its serialized form, by a clock seven seconds later: the creators
  \<open>["", "Ann"]\<close> come back as \<open>["Ann"]\<close>, since an empty string writes no element, and the
  date comes back as the later reading.
\<close>

theorem roundtrip_counterexample:
  "xml_Decode example_lib core_creators
     = Inr (root_plain, [Element \<lparr>Space = [], Local = ''creator''\<rparr> [],
                         Element \<lparr>Space = [], Local = ''creator''\<rparr> [CharData ''Ann'']])
   \<and> extractDublinCore example_lib example_clock core_creators = Some (Return decoded_creators)
   \<and> ToXML example_lib (coreProps_of decoded_creators) = Inr serialized_creators
   \<and> xml_Decode example_lib serialized_creators
       = Inr (serialized_tree (coreProps_of decoded_creators))
   \<and> extractDublinCore example_lib later_clock serialized_creators = Some (Return redecoded_creators)
   \<and> Creator decoded_creators = [[], ''Ann''] \<and> Creator redecoded_creators = [''Ann'']
   \<and> Date decoded_creators = [''2024-05-01T10:00:00Z'']
   \<and> Date redecoded_creators = [''2024-05-01T10:00:07Z'']
   \<and> Creator redecoded_creators \<noteq> Creator decoded_creators
   \<and> Date redecoded_creators \<noteq> Date decoded_creators"
proof -
  have 1: "xml_Decode example_lib core_creators
     = Inr (root_plain, [Element \<lparr>Space = [], Local = ''creator''\<rparr> [],
                         Element \<lparr>Space = [], Local = ''creator''\<rparr> [CharData ''Ann'']])"
    by (simp add: lib_defs doc_defs)
  have 2: "extractDublinCore example_lib example_clock core_creators = Some (Return decoded_creators)"
    using 1 by (simp add: unmarshal_defs root_plain_def decoded_creators_def New_def zero_DublinCore_def)
  have 3: "ToXML example_lib (coreProps_of decoded_creators) = Inr serialized_creators"
    by (simp add: marshal_defs lib_defs decoded_creators_def New_def zero_DublinCore_def
        serialized_creators_def root_start_tag_def)
  have tree: "serialized_tree (coreProps_of decoded_creators)
     = (root_cp, [CharData (newline @ ''  ''), Element \<lparr>Space = dc_ns, Local = ''creator''\<rparr> [CharData ''Ann''],
          CharData (newline @ ''  ''),
          Element \<lparr>Space = cp_ns, Local = ''category''\<rparr> [CharData ''curriculo''],
          CharData newline])"
    by (simp add: serialized_tree_def serialized_elems_def coreProps_of_def decoded_creators_def
        New_def zero_DublinCore_def root_cp_def)
  have 4: "xml_Decode example_lib serialized_creators
       = Inr (serialized_tree (coreProps_of decoded_creators))"
    unfolding tree by (simp add: lib_defs doc_defs dquote_def newline_def)
  have 5: "extractDublinCore example_lib later_clock serialized_creators = Some (Return redecoded_creators)"
    using 4 unfolding tree
    by (simp add: unmarshal_defs root_cp_def redecoded_creators_def New_def zero_DublinCore_def)
  have 6: "Creator decoded_creators = [[], ''Ann'']" "Creator redecoded_creators = [''Ann'']"
    "Date decoded_creators = [''2024-05-01T10:00:00Z'']"
    "Date redecoded_creators = [''2024-05-01T10:00:07Z'']"
    by (simp_all add: decoded_creators_def redecoded_creators_def New_def example_clock_def later_clock_def)
  have 7: "Creator redecoded_creators \<noteq> Creator decoded_creators"
    "Date redecoded_creators \<noteq> Date decoded_creators"
    unfolding 6 by simp_all
  from 1 2 3 4 5 6 7 show ?thesis by (intro conjI)
qed

end
